theory Spec2Isabelle
  imports Complex_Main
begin

section \<open>JavaScript numbers\<close>

text \<open>
  A JavaScript number is modelled as a real extended with the three special values of
  IEEE 754 that the program tests for: NaN and the two infinities. Overflow is
  modelled: an arithmetic result at or beyond the threshold where a double rounds to
  an infinity is that infinity. Below the threshold arithmetic is exact: rounding to
  53 bits, underflow and the sign of zero are outside the model.
\<close>

datatype jsnum = Fin real | NaN | PInf | NInf

text \<open>
  The least magnitude that rounds to an infinity: the largest double plus half a unit
  in its last place.
\<close>

definition OVERFLOW :: real where
  "OVERFLOW = 2 ^ 1024 - 2 ^ 970"

definition in_range :: "real \<Rightarrow> bool" where
  "in_range r = (\<bar>r\<bar> < OVERFLOW)"

text \<open>The number that an exact result becomes.\<close>

definition fin :: "real \<Rightarrow> jsnum" where
  "fin r = (if OVERFLOW \<le> r then PInf else if r \<le> - OVERFLOW then NInf else Fin r)"

instantiation jsnum :: "{plus, times, inverse}"
begin

fun plus_jsnum :: "jsnum \<Rightarrow> jsnum \<Rightarrow> jsnum" where
  "plus_jsnum (Fin a) (Fin b) = fin (a + b)"
| "plus_jsnum NaN _ = NaN"
| "plus_jsnum _ NaN = NaN"
| "plus_jsnum PInf NInf = NaN"
| "plus_jsnum NInf PInf = NaN"
| "plus_jsnum PInf _ = PInf"
| "plus_jsnum _ PInf = PInf"
| "plus_jsnum NInf _ = NInf"
| "plus_jsnum _ NInf = NInf"

fun times_jsnum :: "jsnum \<Rightarrow> jsnum \<Rightarrow> jsnum" where
  "times_jsnum (Fin a) (Fin b) = fin (a * b)"
| "times_jsnum NaN _ = NaN"
| "times_jsnum _ NaN = NaN"
| "times_jsnum (Fin a) PInf = (if a = 0 then NaN else if 0 < a then PInf else NInf)"
| "times_jsnum (Fin a) NInf = (if a = 0 then NaN else if 0 < a then NInf else PInf)"
| "times_jsnum PInf (Fin b) = (if b = 0 then NaN else if 0 < b then PInf else NInf)"
| "times_jsnum NInf (Fin b) = (if b = 0 then NaN else if 0 < b then NInf else PInf)"
| "times_jsnum PInf PInf = PInf"
| "times_jsnum PInf NInf = NInf"
| "times_jsnum NInf PInf = NInf"
| "times_jsnum NInf NInf = PInf"

text \<open>Division by a zero divisor is the division by the positive zero.\<close>

fun divide_jsnum :: "jsnum \<Rightarrow> jsnum \<Rightarrow> jsnum" where
  "divide_jsnum (Fin a) (Fin b) =
     (if b = 0 then (if a = 0 then NaN else if 0 < a then PInf else NInf)
      else fin (a / b))"
| "divide_jsnum NaN _ = NaN"
| "divide_jsnum _ NaN = NaN"
| "divide_jsnum (Fin a) PInf = Fin 0"
| "divide_jsnum (Fin a) NInf = Fin 0"
| "divide_jsnum PInf (Fin b) = (if b < 0 then NInf else PInf)"
| "divide_jsnum NInf (Fin b) = (if b < 0 then PInf else NInf)"
| "divide_jsnum PInf PInf = NaN"
| "divide_jsnum PInf NInf = NaN"
| "divide_jsnum NInf PInf = NaN"
| "divide_jsnum NInf NInf = NaN"

definition inverse_jsnum :: "jsnum \<Rightarrow> jsnum" where
  "inverse_jsnum x = divide (Fin 1) x"

instance ..

end

text \<open>\<^verbatim>\<open>Number.isFinite(x)\<close> on a number.\<close>

fun isFinite :: "jsnum \<Rightarrow> bool" where
  "isFinite (Fin _) = True"
| "isFinite _ = False"

text \<open>Truthiness of a number: only zero and NaN are falsy.\<close>

fun truthy_num :: "jsnum \<Rightarrow> bool" where
  "truthy_num (Fin a) = (a \<noteq> 0)"
| "truthy_num NaN = False"
| "truthy_num _ = True"

text \<open>\<^verbatim>\<open>x || d\<close> where \<open>x\<close> and \<open>d\<close> are numbers.\<close>

definition num_or :: "jsnum \<Rightarrow> jsnum \<Rightarrow> jsnum" where
  "num_or x d = (if truthy_num x then x else d)"

section \<open>JavaScript values\<close>

text \<open>
  The values that reach the program: what the form controls deliver (strings), what
  the program stores itself (numbers, strings) and what \<^verbatim>\<open>JSON.parse\<close> returns
  (null, booleans, numbers, strings, arrays, plain objects), plus \<^verbatim>\<open>undefined\<close> for
  an absent property. An object is a map from property names to values.
\<close>

datatype jsval =
    JUndefined
  | JNull
  | JBool bool
  | JNum jsnum
  | JStr string
  | JArr "jsval list"
  | JObj "string \<Rightarrow> jsval option"

datatype currency = PEN | USD

text \<open>
  Four functions of the host engine are taken as parameters: the parsing of a string as
  a numeric literal (the StringToNumber of the language definition), the printing of a
  number (Number::toString), \<^verbatim>\<open>JSON.parse\<close> (\<open>None\<close> when it throws) and the
  currency formatter \<^verbatim>\<open>Intl.NumberFormat(locale, {style: "currency", currency,
  maximumFractionDigits: 2}).format\<close>. The theorems hold for every host.
\<close>

record host =
  StringToNumber :: "string \<Rightarrow> jsnum"
  NumberToString :: "jsnum \<Rightarrow> string"
  JSON_parse :: "string \<Rightarrow> jsval option"
  formatCurrency :: "string \<Rightarrow> currency \<Rightarrow> jsnum \<Rightarrow> string"

fun join :: "string \<Rightarrow> string list \<Rightarrow> string" where
  "join sep [] = []"
| "join sep [s] = s"
| "join sep (s # t # ss) = s @ sep @ join sep (t # ss)"

text \<open>
  \<^verbatim>\<open>String(v)\<close>, with \<open>None\<close> when it throws. A plain object prints as
  \<^verbatim>\<open>[object Object]\<close> through the method of its prototype; when it has a member
  named toString of its own (never a function in a value that \<^verbatim>\<open>JSON.parse\<close>
  returns) no method yields a primitive and the conversion throws a TypeError. An
  array prints its elements separated by commas, null and undefined elements as the
  empty string, and throws when the printing of an element throws.
\<close>

fun ToString :: "host \<Rightarrow> jsval \<Rightarrow> string option" where
  "ToString h JUndefined = Some ''undefined''"
| "ToString h JNull = Some ''null''"
| "ToString h (JBool b) = Some (if b then ''true'' else ''false'')"
| "ToString h (JNum n) = Some (NumberToString h n)"
| "ToString h (JStr s) = Some s"
| "ToString h (JArr vs) =
     map_option (join '','')
       (those (map (\<lambda>v. if v = JUndefined \<or> v = JNull then Some [] else ToString h v) vs))"
| "ToString h (JObj m) = (if m ''toString'' = None then Some ''[object Object]'' else None)"

text \<open>
  \<^verbatim>\<open>Number(v)\<close>, with \<open>None\<close> when it throws; arrays and objects are converted
  through their string form, and throw when that throws.
\<close>

fun Number :: "host \<Rightarrow> jsval \<Rightarrow> jsnum option" where
  "Number h JUndefined = Some NaN"
| "Number h JNull = Some (Fin 0)"
| "Number h (JBool b) = Some (if b then Fin 1 else Fin 0)"
| "Number h (JNum n) = Some n"
| "Number h (JStr s) = Some (StringToNumber h s)"
| "Number h v = map_option (StringToNumber h) (ToString h v)"

text \<open>
  The values on which the two conversions throw: the objects with a member named
  toString of their own, and the arrays that hold such a value.
\<close>

fun unconvertible :: "jsval \<Rightarrow> bool" where
  "unconvertible (JObj m) = (m ''toString'' \<noteq> None)"
| "unconvertible (JArr vs) = list_ex unconvertible vs"
| "unconvertible _ = False"

fun truthy :: "jsval \<Rightarrow> bool" where
  "truthy JUndefined = False"
| "truthy JNull = False"
| "truthy (JBool b) = b"
| "truthy (JNum n) = truthy_num n"
| "truthy (JStr s) = (s \<noteq> [])"
| "truthy (JArr _) = True"
| "truthy (JObj _) = True"

text \<open>\<^verbatim>\<open>a || b\<close> on values.\<close>

definition or_else :: "jsval \<Rightarrow> jsval \<Rightarrow> jsval" where
  "or_else a b = (if truthy a then a else b)"

text \<open>Property access \<^verbatim>\<open>v.k\<close> for a name \<open>k\<close> that no prototype defines.\<close>

fun get :: "jsval \<Rightarrow> string \<Rightarrow> jsval" where
  "get (JObj m) k = (case m k of None \<Rightarrow> JUndefined | Some v \<Rightarrow> v)"
| "get _ k = JUndefined"

text \<open>\<^verbatim>\<open>typeof v\<close>.\<close>

fun typeof :: "jsval \<Rightarrow> string" where
  "typeof JUndefined = ''undefined''"
| "typeof JNull = ''object''"
| "typeof (JBool _) = ''boolean''"
| "typeof (JNum _) = ''number''"
| "typeof (JStr _) = ''string''"
| "typeof (JArr _) = ''object''"
| "typeof (JObj _) = ''object''"

text \<open>
  Strict equality \<^verbatim>\<open>a === b\<close>. NaN differs from itself. Arrays and objects are
  compared by structure here, where the engine compares references.
\<close>

definition strict_eq :: "jsval \<Rightarrow> jsval \<Rightarrow> bool" where
  "strict_eq a b = (a = b \<and> a \<noteq> JNum NaN)"

section \<open>Strings\<close>

text \<open>
  A string is the list of its code units; the model covers the code units below 256
  (ASCII and Latin-1), which a \<open>char\<close> holds.
\<close>

definition char_code :: "char \<Rightarrow> nat" where
  "char_code c = of_char c"

text \<open>White space of \<^verbatim>\<open>trim\<close> and of the class \<^verbatim>\<open>\\s\<close>, below 256.\<close>

definition is_space :: "char \<Rightarrow> bool" where
  "is_space c = (char_code c \<in> {9, 10, 11, 12, 13, 32, 160})"

definition is_digit :: "char \<Rightarrow> bool" where
  "is_digit c = (48 \<le> char_code c \<and> char_code c \<le> 57)"

text \<open>The class \<^verbatim>\<open>\\w\<close>: letters of ASCII, digits and the underscore.\<close>

definition is_word :: "char \<Rightarrow> bool" where
  "is_word c =
     ((65 \<le> char_code c \<and> char_code c \<le> 90) \<or> (97 \<le> char_code c \<and> char_code c \<le> 122)
      \<or> is_digit c \<or> c = CHR ''_'')"

definition trim :: "string \<Rightarrow> string" where
  "trim s = rev (dropWhile is_space (rev (dropWhile is_space s)))"

text \<open>\<^verbatim>\<open>toLowerCase\<close> on one code unit below 256.\<close>

definition lower_char :: "char \<Rightarrow> char" where
  "lower_char c =
     (let n = char_code c
      in if (65 \<le> n \<and> n \<le> 90) \<or> (192 \<le> n \<and> n \<le> 222 \<and> n \<noteq> 215)
         then char_of (n + 32) else c)"

definition toLowerCase :: "string \<Rightarrow> string" where
  "toLowerCase s = map lower_char s"

text \<open>
  \<^verbatim>\<open>replace(/c+/g, "_")\<close> for a character class \<open>p\<close>: every maximal run of
  characters of the class becomes one underscore.
\<close>

function collapse :: "(char \<Rightarrow> bool) \<Rightarrow> string \<Rightarrow> string" where
  "collapse p [] = []"
| "collapse p (c # cs) =
     (if p c then CHR ''_'' # collapse p (dropWhile p cs) else c # collapse p cs)"
  by pat_completeness auto
termination
  by (relation "measure (\<lambda>(p, s). length s)")
     (auto simp: le_imp_less_Suc length_dropWhile_le)

text \<open>\<^verbatim>\<open>a || b\<close> on strings: the empty string is falsy.\<close>

definition str_or :: "string \<Rightarrow> string \<Rightarrow> string" where
  "str_or a b = (if a \<noteq> [] then a else b)"

definition slugifyCode :: "string \<Rightarrow> string" where
  "slugifyCode str =
     take 40
       (collapse (\<lambda>c. c = CHR ''_'')
         (collapse is_space
           (filter (\<lambda>c. is_word c \<or> is_space c \<or> c = CHR ''-'')
             (trim (toLowerCase (str_or str []))))))"

text \<open>\<^verbatim>\<open>moneyFmt(amount, currency)\<close>, the same in both variants.\<close>

definition moneyFmt :: "host \<Rightarrow> jsnum \<Rightarrow> currency \<Rightarrow> string" where
  "moneyFmt h amount cur =
     (let locale = (if cur = PEN then ''es-PE'' else ''en-US'')
      in formatCurrency h locale cur (if isFinite amount then amount else Fin 0))"

section \<open>Line items and the pricing computation\<close>

record row =
  row_id :: string
  serviceType :: string
  detail :: string
  hours :: jsval
  hourlyCost :: jsval

text \<open>
  An element of \<^verbatim>\<open>computed.items\<close>: the row with \<open>hours\<close> and \<open>hourlyCost\<close>
  replaced by their numeric coercions, and the derived subtotal.
\<close>

record item =
  item_row :: row
  item_hours :: jsnum
  item_hourlyCost :: jsnum
  item_subtotal :: jsnum

record totals =
  items :: "item list"
  subtotal :: jsnum
  igv :: jsnum
  total :: jsnum
  otherCurrency :: currency
  subtotalOther :: jsnum
  igvOther :: jsnum
  totalOther :: jsnum

text \<open>
  The callback of \<^verbatim>\<open>rows.map\<close> in \<^verbatim>\<open>computed\<close>, the same in both variants;
  \<open>None\<close> when a conversion throws.
\<close>

definition mk_item :: "host \<Rightarrow> row \<Rightarrow> item option" where
  "mk_item h r =
     (case Number h (hours r) of
        None \<Rightarrow> None
      | Some nh \<Rightarrow>
          (case Number h (hourlyCost r) of
             None \<Rightarrow> None
           | Some nc \<Rightarrow>
               (let hrs = num_or nh (Fin 0);
                    cost = num_or nc (Fin 0);
                    sub = hrs * cost
                in Some \<lparr>item_row = r, item_hours = hrs, item_hourlyCost = cost,
                         item_subtotal = sub\<rparr>)))"

subsection \<open>The variant with fixed rates (src/src/App.js)\<close>

definition EXCHANGE_RATE :: jsnum where
  "EXCHANGE_RATE = Fin 3.5"

definition IGV_RATE :: jsnum where
  "IGV_RATE = Fin 0.18"

definition App_convert :: "jsnum \<Rightarrow> currency \<Rightarrow> jsnum" where
  "App_convert amount fromCurrency =
     (if \<not> isFinite amount then Fin 0
      else if fromCurrency = PEN then amount / EXCHANGE_RATE
      else amount * EXCHANGE_RATE)"

text \<open>
  The body of \<^verbatim>\<open>computed\<close>; \<open>None\<close> when the conversion of an operand throws
  (\<open>those\<close> is \<open>None\<close> when an element of the list is).
\<close>

definition App_computed :: "host \<Rightarrow> row list \<Rightarrow> currency \<Rightarrow> totals option" where
  "App_computed h rows cur =
     (case those (map (mk_item h) rows) of
        None \<Rightarrow> None
      | Some its \<Rightarrow>
          (let sub = foldl (\<lambda>acc it. acc + item_subtotal it) (Fin 0) its;
               tax = sub * IGV_RATE;
               tot = sub + tax
           in Some \<lparr>items = its, subtotal = sub, igv = tax, total = tot,
                    otherCurrency = (if cur = PEN then USD else PEN),
                    subtotalOther = App_convert sub cur,
                    igvOther = App_convert tax cur,
                    totalOther = App_convert tot cur\<rparr>))"

subsection \<open>The variant with persisted settings (src/unnamed/part_000)\<close>

text \<open>The settings object is a map from property names to values.\<close>

type_synonym settings = "string \<Rightarrow> jsval option"

definition setting :: "settings \<Rightarrow> string \<Rightarrow> jsval" where
  "setting s k = get (JObj s) k"

text \<open>The closure \<^verbatim>\<open>convert\<close> inside \<^verbatim>\<open>computed\<close>, with the variables it captures.\<close>

definition convert :: "jsnum \<Rightarrow> currency \<Rightarrow> jsnum \<Rightarrow> jsnum" where
  "convert rate cur amount =
     (if \<not> isFinite amount then Fin 0
      else if cur = PEN then amount / rate
      else amount * rate)"

text \<open>
  The body of \<^verbatim>\<open>computed\<close>; \<open>None\<close> when the conversion of an operand or of one
  of the two settings throws.
\<close>

definition computed :: "host \<Rightarrow> settings \<Rightarrow> row list \<Rightarrow> currency \<Rightarrow> totals option" where
  "computed h st rows cur =
     (case those (map (mk_item h) rows) of
        None \<Rightarrow> None
      | Some its \<Rightarrow>
          (case Number h (setting st ''igvRate'') of
             None \<Rightarrow> None
           | Some t \<Rightarrow>
               (case Number h (setting st ''exchangeRate'') of
                  None \<Rightarrow> None
                | Some x \<Rightarrow>
                    (let sub = foldl (\<lambda>acc it. acc + item_subtotal it) (Fin 0) its;
                         tax = sub * num_or t (Fin 0);
                         tot = sub + tax;
                         rate = num_or x (Fin 1)
                     in Some \<lparr>items = its, subtotal = sub, igv = tax, total = tot,
                              otherCurrency = (if cur = PEN then USD else PEN),
                              subtotalOther = convert rate cur sub,
                              igvOther = convert rate cur tax,
                              totalOther = convert rate cur tot\<rparr>))))"

section \<open>The rows handed to the PDF table\<close>

subsection \<open>src/src/App.js\<close>

record catalog_entry =
  entry_value :: string
  entry_label :: string
  entry_suggestion :: string

definition SERVICE_CATALOG :: "catalog_entry list" where
  "SERVICE_CATALOG =
     [\<lparr>entry_value = ''creacion_web'',
       entry_label = ''Creaci'' @ [char_of (243::nat)] @ ''n de p'' @ [char_of (225::nat)] @ ''gina web'',
       entry_suggestion =
         ''Incluye estructura, secciones, responsive, performance b'' @ [char_of (225::nat)]
         @ ''sico, formularios y puesta en producci'' @ [char_of (243::nat)] @ ''n.''\<rparr>,
      \<lparr>entry_value = ''mantenimiento_web'',
       entry_label = ''Mantenimiento de p'' @ [char_of (225::nat)] @ ''gina web'',
       entry_suggestion =
         ''Actualizaciones, backups, monitoreo, correcciones, seguridad b'' @ [char_of (225::nat)]
         @ ''sica, soporte mensual.''\<rparr>,
      \<lparr>entry_value = ''diseno_figma'',
       entry_label = ''Dise'' @ [char_of (241::nat)] @ ''o UI en Figma'',
       entry_suggestion =
         ''Wireframes + UI final, componentes, estilos, prototipo navegable y handoff a desarrollo.''\<rparr>]"

definition getServiceLabel :: "string \<Rightarrow> string" where
  "getServiceLabel v =
     str_or (case find (\<lambda>s. entry_value s = v) SERVICE_CATALOG of
               None \<Rightarrow> [] | Some s \<Rightarrow> entry_label s) v"

text \<open>
  The array \<^verbatim>\<open>body\<close> of \<^verbatim>\<open>generatePdf\<close>: four cells for each item. The
  hours of an item are a number, so \<^verbatim>\<open>String(it.hours ?? 0)\<close> prints that number.
\<close>

definition generatePdf_body :: "host \<Rightarrow> totals \<Rightarrow> currency \<Rightarrow> string list list" where
  "generatePdf_body h c cur =
     map (\<lambda>it.
            [getServiceLabel (serviceType (item_row it)),
             str_or (detail (item_row it)) [],
             NumberToString h (item_hours it),
             moneyFmt h (item_subtotal it) cur])
         (items c)"

subsection \<open>src/unnamed/part_000\<close>

record service =
  svc_id :: jsval
  code :: string
  label :: string
  suggestion :: string
  defaultHourlyCost :: jsnum

definition getServiceByCode :: "service list \<Rightarrow> string \<Rightarrow> service option" where
  "getServiceByCode services c = find (\<lambda>s. code s = c) services"

definition DEFAULT_SERVICES :: "service list" where
  "DEFAULT_SERVICES =
     [\<lparr>svc_id = JStr ''srv_creacion_web'', code = ''creacion_web'',
       label = ''Creaci'' @ [char_of (243::nat)] @ ''n de p'' @ [char_of (225::nat)] @ ''gina web'',
       suggestion =
         ''Incluye estructura, secciones, responsive, performance b'' @ [char_of (225::nat)]
         @ ''sico, formularios y puesta en producci'' @ [char_of (243::nat)] @ ''n.'',
       defaultHourlyCost = Fin 60\<rparr>,
      \<lparr>svc_id = JStr ''srv_mantenimiento_web'', code = ''mantenimiento_web'',
       label = ''Mantenimiento de p'' @ [char_of (225::nat)] @ ''gina web'',
       suggestion =
         ''Actualizaciones, backups, monitoreo, correcciones, seguridad b'' @ [char_of (225::nat)]
         @ ''sica, soporte mensual.'',
       defaultHourlyCost = Fin 50\<rparr>,
      \<lparr>svc_id = JStr ''srv_diseno_figma'', code = ''diseno_figma'',
       label = ''Dise'' @ [char_of (241::nat)] @ ''o UI en Figma'',
       suggestion =
         ''Wireframes + UI final, componentes, estilos, prototipo navegable y handoff a desarrollo.'',
       defaultHourlyCost = Fin 55\<rparr>]"

text \<open>The array \<^verbatim>\<open>body\<close> of \<^verbatim>\<open>generatePdfCotizacion\<close>: three cells for each item.\<close>

definition generatePdfCotizacion_body ::
    "host \<Rightarrow> service list \<Rightarrow> totals \<Rightarrow> currency \<Rightarrow> string list list" where
  "generatePdfCotizacion_body h services c cur =
     map (\<lambda>it.
            let lbl = str_or (case getServiceByCode services (serviceType (item_row it)) of
                                None \<Rightarrow> [] | Some s \<Rightarrow> label s)
                             (serviceType (item_row it))
            in [lbl, str_or (detail (item_row it)) [], moneyFmt h (item_subtotal it) cur])
         (items c)"

section \<open>Editing line items\<close>

text \<open>\<^verbatim>\<open>handleServiceChange\<close> of src/src/App.js, as a function of the rows.\<close>

definition App_handleServiceChange :: "string \<Rightarrow> string \<Rightarrow> row list \<Rightarrow> row list" where
  "App_handleServiceChange i st rows =
     (let sugg = str_or (case find (\<lambda>s. entry_value s = st) SERVICE_CATALOG of
                           None \<Rightarrow> [] | Some s \<Rightarrow> entry_suggestion s) []
      in map (\<lambda>r. if row_id r = i
                   then r\<lparr>serviceType := st,
                          detail := (if trim (detail r) \<noteq> [] then detail r else sugg)\<rparr>
                   else r) rows)"

text \<open>
  \<^verbatim>\<open>handleServiceChange\<close> of src/unnamed/part_000. The default hourly cost of a
  catalog entry is a number, so \<^verbatim>\<open>Number(svc?.defaultHourlyCost ?? 0)\<close> is that
  number, and 0 when no entry has the code.
\<close>

definition handleServiceChange ::
    "service list \<Rightarrow> string \<Rightarrow> string \<Rightarrow> row list \<Rightarrow> row list" where
  "handleServiceChange services rowId st rows =
     (let svc = getServiceByCode services st;
          sugg = str_or (case svc of None \<Rightarrow> [] | Some s \<Rightarrow> suggestion s) [];
          cost = (case svc of None \<Rightarrow> Fin 0 | Some s \<Rightarrow> defaultHourlyCost s)
      in map (\<lambda>r. if row_id r = rowId
                   then r\<lparr>serviceType := st,
                          detail := (if trim (detail r) \<noteq> [] then detail r else sugg),
                          hourlyCost := JNum cost\<rparr>
                   else r) rows)"

text \<open>
  The effect that runs when \<^verbatim>\<open>services\<close> changes: rows whose service code is no
  longer in the catalog move to the code of the first entry.
\<close>

definition reconcile_rows :: "service list \<Rightarrow> row list \<Rightarrow> row list" where
  "reconcile_rows services rows =
     (case services of
        [] \<Rightarrow> rows
      | s0 # _ \<Rightarrow>
          (let codes = set (map code services); fallback = code s0
           in map (\<lambda>r. if serviceType r \<in> codes then r else r\<lparr>serviceType := fallback\<rparr>) rows))"

section \<open>The service catalog\<close>

text \<open>
  The messages of \<^verbatim>\<open>alert\<close>: the name of the service is missing, the code is empty,
  the code exists already, at least one service must remain.
\<close>

datatype alert = NameRequired | CodeEmpty | CodeExists | MinOneService

record new_service =
  ns_label :: string
  ns_code :: string
  ns_suggestion :: string
  ns_defaultHourlyCost :: jsnum

record catalog_state =
  services :: "service list"
  newService :: new_service

definition blank_new_service :: new_service where
  "blank_new_service =
     \<lparr>ns_label = [], ns_code = [], ns_suggestion = [], ns_defaultHourlyCost = Fin 0\<rparr>"

text \<open>The code that \<^verbatim>\<open>addServiceFromAdmin\<close> resolves from the form.\<close>

definition resolved_code :: "new_service \<Rightarrow> string" where
  "resolved_code ns = trim (str_or (ns_code ns) (slugifyCode (trim (str_or (ns_label ns) []))))"

text \<open>
  \<^verbatim>\<open>addServiceFromAdmin\<close>: the result of \<^verbatim>\<open>safeId()\<close> is the argument \<open>fresh\<close>;
  the function returns the alert it raised, if any, and the next state. The fields of
  the form are strings and a number, on which \<^verbatim>\<open>String\<close> and \<^verbatim>\<open>Number\<close> are the
  identity.
\<close>

definition addServiceFromAdmin ::
    "string \<Rightarrow> catalog_state \<Rightarrow> alert option \<times> catalog_state" where
  "addServiceFromAdmin fresh s =
     (let lbl = trim (str_or (ns_label (newService s)) []);
          cd = trim (str_or (ns_code (newService s)) (slugifyCode lbl))
      in if lbl = [] then (Some NameRequired, s)
         else if cd = [] then (Some CodeEmpty, s)
         else if list_ex (\<lambda>x. code x = cd) (services s) then (Some CodeExists, s)
         else
           (let svc = \<lparr>svc_id = JStr fresh, code = cd, label = lbl,
                       suggestion = str_or (ns_suggestion (newService s)) [],
                       defaultHourlyCost = num_or (ns_defaultHourlyCost (newService s)) (Fin 0)\<rparr>
            in (None, \<lparr>services = services s @ [svc], newService = blank_new_service\<rparr>)))"

text \<open>
  The object \<^verbatim>\<open>patch\<close> of \<^verbatim>\<open>updateService\<close>: each property of a service may be
  present in it. The form passes patches with a label, a suggestion or a default
  hourly cost only.
\<close>

record patch =
  patch_id :: "jsval option"
  patch_code :: "string option"
  patch_label :: "string option"
  patch_suggestion :: "string option"
  patch_defaultHourlyCost :: "jsnum option"

text \<open>The spread \<^verbatim>\<open>{ ...s, ...patch }\<close>.\<close>

definition apply_patch :: "service \<Rightarrow> patch \<Rightarrow> service" where
  "apply_patch s p =
     \<lparr>svc_id = (case patch_id p of None \<Rightarrow> svc_id s | Some v \<Rightarrow> v),
      code = (case patch_code p of None \<Rightarrow> code s | Some v \<Rightarrow> v),
      label = (case patch_label p of None \<Rightarrow> label s | Some v \<Rightarrow> v),
      suggestion = (case patch_suggestion p of None \<Rightarrow> suggestion s | Some v \<Rightarrow> v),
      defaultHourlyCost =
        (case patch_defaultHourlyCost p of None \<Rightarrow> defaultHourlyCost s | Some v \<Rightarrow> v)\<rparr>"

definition updateService :: "jsval \<Rightarrow> patch \<Rightarrow> service list \<Rightarrow> service list" where
  "updateService i p svcs = map (\<lambda>s. if strict_eq (svc_id s) i then apply_patch s p else s) svcs"

text \<open>
  \<^verbatim>\<open>deleteService\<close>: the answer of \<^verbatim>\<open>window.confirm\<close> to the question about a
  service is the argument \<open>confirm\<close>; the function returns the alert it raised, if any,
  and the next catalog.
\<close>

definition deleteService ::
    "(service \<Rightarrow> bool) \<Rightarrow> jsval \<Rightarrow> service list \<Rightarrow> alert option \<times> service list" where
  "deleteService confirm i svcs =
     (case find (\<lambda>s. strict_eq (svc_id s) i) svcs of
        None \<Rightarrow> (None, svcs)
      | Some svc \<Rightarrow>
          if length svcs \<le> 1 then (Some MinOneService, svcs)
          else if \<not> confirm svc then (None, svcs)
          else (None, filter (\<lambda>s. \<not> strict_eq (svc_id s) i) svcs))"

section \<open>Loading from storage\<close>

text \<open>
  \<^verbatim>\<open>JSON.parse(localStorage.getItem(key) || "null")\<close>: the stored item is \<open>None\<close> when
  the key is missing; the result is \<open>None\<close> when the parser throws.
\<close>

definition parse_item :: "host \<Rightarrow> string option \<Rightarrow> jsval option" where
  "parse_item h stored =
     JSON_parse h (str_or (case stored of None \<Rightarrow> [] | Some t \<Rightarrow> t) ''null'')"

definition digit_char :: "nat \<Rightarrow> char" where
  "digit_char d = ''0123456789'' ! d"

fun nat_to_string :: "nat \<Rightarrow> string" where
  "nat_to_string n =
     (if n < 10 then [digit_char n] else nat_to_string (n div 10) @ [digit_char (n mod 10)])"

declare nat_to_string.simps [simp del]

text \<open>
  The own enumerable properties that a spread \<^verbatim>\<open>{ ...v }\<close> copies: those of an object,
  and the elements of an array under their indices.
\<close>

fun own_props :: "jsval \<Rightarrow> (string \<Rightarrow> jsval option)" where
  "own_props (JObj m) = m"
| "own_props (JArr vs) = map_of (zip (map nat_to_string [0..<length vs]) vs)"
| "own_props _ = Map.empty"

text \<open>The first \<^verbatim>\<open>try\<close> block of the loading effect, as a function of the settings.\<close>

definition load_settings :: "host \<Rightarrow> string option \<Rightarrow> settings \<Rightarrow> settings" where
  "load_settings h stored prev =
     (case parse_item h stored of
        None \<Rightarrow> prev
      | Some saved \<Rightarrow>
          if truthy saved \<and> typeof saved = ''object'' then prev ++ own_props saved else prev)"

text \<open>
  The second \<^verbatim>\<open>try\<close> block, as a function of the catalog. The identifier that
  \<^verbatim>\<open>safeId()\<close> returns for the entry at a position is given by \<open>fresh\<close>. The
  callback of \<^verbatim>\<open>map\<close> is \<open>None\<close> when a conversion throws; the \<^verbatim>\<open>catch\<close> then
  leaves the catalog as it was.
\<close>

definition clean_service :: "host \<Rightarrow> string \<Rightarrow> jsval \<Rightarrow> service option" where
  "clean_service h fresh s =
     (case ToString h (get s ''code'') of
        None \<Rightarrow> None
      | Some c \<Rightarrow>
          (case ToString h (get s ''label'') of
             None \<Rightarrow> None
           | Some l \<Rightarrow>
               (case ToString h (or_else (get s ''suggestion'') (JStr [])) of
                  None \<Rightarrow> None
                | Some g \<Rightarrow>
                    (case Number h (or_else (get s ''defaultHourlyCost'') (JNum (Fin 0))) of
                       None \<Rightarrow> None
                     | Some d \<Rightarrow>
                         Some \<lparr>svc_id = or_else (get s ''id'') (JStr fresh), code = c,
                               label = l, suggestion = g, defaultHourlyCost = d\<rparr>))))"

definition load_services ::
    "host \<Rightarrow> (nat \<Rightarrow> string) \<Rightarrow> string option \<Rightarrow> service list \<Rightarrow> service list" where
  "load_services h fresh stored prev =
     (case parse_item h stored of
        Some (JArr vs) \<Rightarrow>
          if length vs > 0 then
            (let kept = filter (\<lambda>s. truthy s \<and> truthy (get s ''code'') \<and> truthy (get s ''label'')) vs
             in case those (map (\<lambda>(n, s). clean_service h (fresh n) s) (enumerate 0 kept)) of
                  None \<Rightarrow> prev
                | Some cleaned \<Rightarrow> if length cleaned > 0 then cleaned else prev)
          else prev
      | _ \<Rightarrow> prev)"

section \<open>Built-in settings and a host for examples\<close>

definition APP_OWNER_NAME :: string where
  "APP_OWNER_NAME = ''Alma Industria Creativa E.I.R.L. | Alma Quinta''"

definition DEFAULT_SETTINGS :: settings where
  "DEFAULT_SETTINGS = map_of
     [(''exchangeRate'', JNum (Fin 3.5)),
      (''igvRate'', JNum (Fin 0.18)),
      (''companyName'', JStr APP_OWNER_NAME),
      (''companyRuc'', JStr []),
      (''companyEmail'', JStr []),
      (''companyPhone'', JStr [])]"

text \<open>
  A host for evaluating examples. It agrees with the engine on the inputs that the
  examples use: the empty string reads as the number 0, a string of decimal digits as
  its value and the word Infinity as the infinity, a natural number prints in decimal,
  and the JSON texts listed are parsed as the engine parses them; the text that is
  not listed is malformed. On other inputs it is a stand-in, as is its currency
  formatter, which prints the locale, the currency and the number.
\<close>

definition example_StringToNumber :: "string \<Rightarrow> jsnum" where
  "example_StringToNumber s =
     (if s = ''Infinity'' then PInf
      else if list_all is_digit s
      then fin (real (foldl (\<lambda>acc c. 10 * acc + (char_code c - 48)) 0 s))
      else NaN)"

definition example_NumberToString :: "jsnum \<Rightarrow> string" where
  "example_NumberToString n =
     (case n of
        Fin r \<Rightarrow> (if 0 \<le> r \<and> r = real (nat \<lfloor>r\<rfloor>) then nat_to_string (nat \<lfloor>r\<rfloor>) else ''?'')
      | NaN \<Rightarrow> ''NaN''
      | PInf \<Rightarrow> ''Infinity''
      | NInf \<Rightarrow> ''-Infinity'')"

definition example_JSON_parse :: "string \<Rightarrow> jsval option" where
  \<open>example_JSON_parse = map_of
     [(''null'', JNull),
      (''7'', JNum (Fin 7)),
      (''{"igvRate":0.2}'', JObj (map_of [(''igvRate'', JNum (Fin 0.2))])),
      (''[{"code":"a","label":"A"},{"code":"a","label":"B"}]'',
       JArr [JObj (map_of [(''code'', JStr ''a''), (''label'', JStr ''A'')]),
             JObj (map_of [(''code'', JStr ''a''), (''label'', JStr ''B'')])]),
      (''[{"code":"a","label":"A"},{"code":"b","label":"B"}]'',
       JArr [JObj (map_of [(''code'', JStr ''a''), (''label'', JStr ''A'')]),
             JObj (map_of [(''code'', JStr ''b''), (''label'', JStr ''B'')])]),
      (''[{"id":"x","code":"a","label":"A"},{"id":"x","code":"b","label":"B"}]'',
       JArr [JObj (map_of [(''id'', JStr ''x''), (''code'', JStr ''a''), (''label'', JStr ''A'')]),
             JObj (map_of [(''id'', JStr ''x''), (''code'', JStr ''b''), (''label'', JStr ''B'')])]),
      (''[1,2]'', JArr [JNum (Fin 1), JNum (Fin 2)]),
      (''{"igvRate":{"toString":1}}'',
       JObj (map_of [(''igvRate'', JObj (map_of [(''toString'', JNum (Fin 1))]))])),
      (''[{"code":"a","label":"A","defaultHourlyCost":10},{"code":"a","label":"B","defaultHourlyCost":75}]'',
       JArr [JObj (map_of [(''code'', JStr ''a''), (''label'', JStr ''A''),
                           (''defaultHourlyCost'', JNum (Fin 10))]),
             JObj (map_of [(''code'', JStr ''a''), (''label'', JStr ''B''),
                           (''defaultHourlyCost'', JNum (Fin 75))])])]\<close>

definition example_formatCurrency :: "string \<Rightarrow> currency \<Rightarrow> jsnum \<Rightarrow> string" where
  "example_formatCurrency locale cur n =
     locale @ '' '' @ (if cur = PEN then ''PEN'' else ''USD'') @ '' '' @ example_NumberToString n"

definition example_host :: host where
  "example_host =
     \<lparr>StringToNumber = example_StringToNumber, NumberToString = example_NumberToString,
      JSON_parse = example_JSON_parse, formatCurrency = example_formatCurrency\<rparr>"

text \<open>The three rows of the initial state of src/src/App.js.\<close>

definition example_rows :: "row list" where
  "example_rows =
     [\<lparr>row_id = ''r1'', serviceType = ''creacion_web'', detail = [],
        hours = JNum (Fin 20), hourlyCost = JNum (Fin 60)\<rparr>,
      \<lparr>row_id = ''r2'', serviceType = ''mantenimiento_web'', detail = [],
        hours = JNum (Fin 8), hourlyCost = JNum (Fin 50)\<rparr>,
      \<lparr>row_id = ''r3'', serviceType = ''diseno_figma'', detail = [],
        hours = JNum (Fin 12), hourlyCost = JNum (Fin 55)\<rparr>]"

text \<open>A list of one row with the given hours and hourly cost.\<close>

definition one_row :: "jsval \<Rightarrow> jsval \<Rightarrow> row list" where
  "one_row hrs cost =
     [\<lparr>row_id = ''r1'', serviceType = ''creacion_web'', detail = [],
       hours = hrs, hourlyCost = cost\<rparr>]"

section \<open>Notions of the specification and data for examples\<close>

text \<open>
  The specification's coercion of a line item's operand: a value that is not a finite
  number becomes 0.
\<close>

definition finite_or_zero :: "jsnum \<Rightarrow> jsnum" where
  "finite_or_zero n = (if isFinite n then n else Fin 0)"

text \<open>What the program's \<^verbatim>\<open>Number(x) || 0\<close> amounts to: only NaN is replaced.\<close>

definition nan_to_zero :: "jsnum \<Rightarrow> jsnum" where
  "nan_to_zero n = (if n = NaN then Fin 0 else n)"

text \<open>
  The pricing rule of the specification for a coercion \<open>co\<close> of the operands and a tax
  rate \<open>rate\<close>: each item keeps its row, carries the coerced operands and their product,
  the subtotal is the sum of the items' subtotals, added in order from 0, the tax is
  the subtotal times the rate and the total is their sum.
\<close>

definition pricing_spec ::
    "(jsnum \<Rightarrow> jsnum) \<Rightarrow> host \<Rightarrow> row list \<Rightarrow> jsnum \<Rightarrow> totals \<Rightarrow> bool" where
  "pricing_spec co h rows rate c =
     (length (items c) = length rows
      \<and> (\<forall>i < length rows.
            item_row (items c ! i) = rows ! i
            \<and> map_option co (Number h (hours (rows ! i))) = Some (item_hours (items c ! i))
            \<and> map_option co (Number h (hourlyCost (rows ! i)))
                = Some (item_hourlyCost (items c ! i))
            \<and> item_subtotal (items c ! i) = item_hours (items c ! i) * item_hourlyCost (items c ! i))
      \<and> subtotal c = foldl (+) (Fin 0) (map item_subtotal (items c))
      \<and> igv c = subtotal c * rate
      \<and> total c = subtotal c + igv c)"

text \<open>
  What the specification lets the exporter see of an item: the service, the detail and
  the derived subtotal.
\<close>

definition exported_view :: "item \<Rightarrow> string \<times> string \<times> jsnum" where
  "exported_view it = (serviceType (item_row it), detail (item_row it), item_subtotal it)"

text \<open>
  Settings for examples: an exchange rate of 0, a negative exchange rate, and an
  exchange rate of 0 with an infinite tax rate.
\<close>

definition zero_rate_settings :: settings where
  "zero_rate_settings = DEFAULT_SETTINGS(''exchangeRate'' \<mapsto> JNum (Fin 0))"

definition negative_rate_settings :: settings where
  "negative_rate_settings = DEFAULT_SETTINGS(''exchangeRate'' \<mapsto> JNum (Fin (- 2)))"

definition infinite_tax_settings :: settings where
  "infinite_tax_settings =
     DEFAULT_SETTINGS(''exchangeRate'' \<mapsto> JNum (Fin 0), ''igvRate'' \<mapsto> JNum PInf)"

text \<open>A user who accepts every confirmation, and one who refuses every one.\<close>

definition accept_all :: "service \<Rightarrow> bool" where
  "accept_all s = True"

definition refuse_all :: "service \<Rightarrow> bool" where
  "refuse_all s = False"

text \<open>The built-in catalog with a fourth service whose default hourly cost is 75.\<close>

definition catalog_75 :: "service list" where
  "catalog_75 = DEFAULT_SERVICES @
     [\<lparr>svc_id = JStr ''srv_audit'', code = ''audit'', label = ''Audit'',
       suggestion = ''Review'', defaultHourlyCost = Fin 75\<rparr>]"

text \<open>The built-in catalog with the form filled in with a label, no code and a cost of 75.\<close>

definition form_with :: "string \<Rightarrow> catalog_state" where
  "form_with lbl =
     \<lparr>services = DEFAULT_SERVICES,
      newService = \<lparr>ns_label = lbl, ns_code = [], ns_suggestion = ''Review'',
                     ns_defaultHourlyCost = Fin 75\<rparr>\<rparr>"

text \<open>
  The invariant of the catalog in the words of the specification: no two entries have
  the same code, and there is at least one entry.
\<close>

definition catalog_inv :: "service list \<Rightarrow> bool" where
  "catalog_inv svcs = (distinct (map code svcs) \<and> svcs \<noteq> [])"

text \<open>
  The codes, as strings, of the stored entries that loading keeps; none when the
  printing of a code throws.
\<close>

definition stored_codes :: "host \<Rightarrow> string option \<Rightarrow> string list" where
  "stored_codes h stored =
     (case parse_item h stored of
        Some (JArr vs) \<Rightarrow>
          (case those (map (\<lambda>s. ToString h (get s ''code''))
                  (filter (\<lambda>s. truthy s \<and> truthy (get s ''code'') \<and> truthy (get s ''label'')) vs)) of
             None \<Rightarrow> []
           | Some cs \<Rightarrow> cs)
      | _ \<Rightarrow> [])"

text \<open>Identifiers for examples.\<close>

definition example_fresh :: "nat \<Rightarrow> string" where
  "example_fresh n = ''id-'' @ nat_to_string n"

text \<open>Stored texts for examples, and a patch that carries a label only.\<close>

definition json_same_code :: string where
  \<open>json_same_code = ''[{"code":"a","label":"A"},{"code":"a","label":"B"}]''\<close>

definition json_two_codes :: string where
  \<open>json_two_codes = ''[{"code":"a","label":"A"},{"code":"b","label":"B"}]''\<close>

definition json_same_id :: string where
  \<open>json_same_id = ''[{"id":"x","code":"a","label":"A"},{"id":"x","code":"b","label":"B"}]''\<close>

definition label_patch :: "string \<Rightarrow> patch" where
  "label_patch l =
     \<lparr>patch_id = None, patch_code = None, patch_label = Some l, patch_suggestion = None,
      patch_defaultHourlyCost = None\<rparr>"

definition json_tax_only :: string where
  \<open>json_tax_only = ''{"igvRate":0.2}''\<close>

text \<open>
  Stored texts for examples: settings whose tax rate is an object with a member named
  toString, and a catalog of two entries with the same code and different costs.
\<close>

definition json_own_toString :: string where
  \<open>json_own_toString = ''{"igvRate":{"toString":1}}''\<close>

definition json_same_code_costs :: string where
  \<open>json_same_code_costs =
     ''[{"code":"a","label":"A","defaultHourlyCost":10},{"code":"a","label":"B","defaultHourlyCost":75}]''\<close>

text \<open>
  A number is valid when it is an infinity, NaN, or finite below the overflow
  threshold; every result of the arithmetic is.
\<close>

definition valid :: "jsnum \<Rightarrow> bool" where
  "valid n = (case n of Fin r \<Rightarrow> in_range r | _ \<Rightarrow> True)"

text \<open>
  The rows that the two exporters receive for the rows of the state, the views of the
  items behind them, and the third column of a table.
\<close>

definition App_pdf_rows :: "host \<Rightarrow> row list \<Rightarrow> currency \<Rightarrow> string list list option" where
  "App_pdf_rows h rows cur = map_option (\<lambda>c. generatePdf_body h c cur) (App_computed h rows cur)"

definition App_views :: "host \<Rightarrow> row list \<Rightarrow> currency \<Rightarrow> (string \<times> string \<times> jsnum) list option" where
  "App_views h rows cur = map_option (\<lambda>c. map exported_view (items c)) (App_computed h rows cur)"

definition App_hours :: "host \<Rightarrow> row list \<Rightarrow> currency \<Rightarrow> jsnum list option" where
  "App_hours h rows cur = map_option (\<lambda>c. map item_hours (items c)) (App_computed h rows cur)"

definition Cotizacion_pdf_rows ::
    "host \<Rightarrow> service list \<Rightarrow> settings \<Rightarrow> row list \<Rightarrow> currency \<Rightarrow> string list list option" where
  "Cotizacion_pdf_rows h svcs st rows cur =
     map_option (\<lambda>c. generatePdfCotizacion_body h svcs c cur) (computed h st rows cur)"

definition Cotizacion_views ::
    "host \<Rightarrow> settings \<Rightarrow> row list \<Rightarrow> currency \<Rightarrow> (string \<times> string \<times> jsnum) list option" where
  "Cotizacion_views h st rows cur =
     map_option (\<lambda>c. map exported_view (items c)) (computed h st rows cur)"

definition third_column :: "string list list \<Rightarrow> string list" where
  "third_column body = map (\<lambda>cells. cells ! 2) body"

section \<open>Properties of the conversions and of the arithmetic\<close>

lemma those_map_None:
  "those (map f xs) = None \<longleftrightarrow> (\<exists>x \<in> set xs. f x = None)"
  by (induction xs) (auto split: option.splits)

lemma those_map_Some:
  "those (map f xs) = Some ys \<Longrightarrow>
     length ys = length xs \<and> (\<forall>i < length xs. f (xs ! i) = Some (ys ! i))"
proof (induction xs arbitrary: ys)
  case Nil
  then show ?case by simp
next
  case (Cons x xs)
  then obtain y zs where y: "f x = Some y" and zs: "those (map f xs) = Some zs"
    and ys: "ys = y # zs"
    by (auto split: option.splits)
  from Cons.IH [OF zs] y ys show ?case
    by (auto simp: nth_Cons split: nat.splits)
qed

lemma unconvertible_not_nullish: "unconvertible v \<Longrightarrow> v \<noteq> JUndefined \<and> v \<noteq> JNull"
  by (cases v) simp_all

lemma ToString_None_iff: "ToString h v = None \<longleftrightarrow> unconvertible v"
proof (induction v rule: unconvertible.induct)
  case (2 vs)
  have "ToString h (JArr vs) = None \<longleftrightarrow>
          (\<exists>v \<in> set vs. v \<noteq> JUndefined \<and> v \<noteq> JNull \<and> ToString h v = None)"
    by (auto simp: those_map_None)
  also have "\<dots> \<longleftrightarrow> (\<exists>v \<in> set vs. unconvertible v)"
    using "2.IH" unconvertible_not_nullish by blast
  finally show ?case
    by (simp add: list_ex_iff)
qed simp_all

lemma Number_None_iff: "Number h v = None \<longleftrightarrow> unconvertible v"
proof (cases v)
  case (JArr vs)
  have "Number h (JArr vs) = None \<longleftrightarrow> ToString h (JArr vs) = None"
    by simp
  then show ?thesis
    unfolding JArr ToString_None_iff .
qed simp_all

lemma fin_in_range: "in_range r \<Longrightarrow> fin r = Fin r"
  by (auto simp: fin_def in_range_def)

lemma fin_out_of_range: "\<not> in_range r \<Longrightarrow> \<not> isFinite (fin r)"
  by (auto simp: fin_def in_range_def)

lemma in_range_small: "\<bar>r\<bar> \<le> 10 ^ 30 \<Longrightarrow> in_range r"
  by (simp add: in_range_def OVERFLOW_def)

lemma fin_small: "\<bar>r\<bar> \<le> 10 ^ 30 \<Longrightarrow> fin r = Fin r"
  by (simp add: fin_in_range in_range_small)

lemma valid_fin: "valid (fin r)"
  by (auto simp: valid_def fin_def in_range_def)

lemma valid_plus: "valid (x + y)"
  by (cases x; cases y) (simp_all add: valid_fin, simp_all add: valid_def)

lemma valid_times: "valid (x * y)"
  by (cases x; cases y) (simp_all add: valid_fin, simp_all add: valid_def)

section \<open>Properties of the pricing computation\<close>

lemma num_or_zero: "num_or n (Fin 0) = nan_to_zero n"
  by (cases n) (simp_all add: num_or_def nan_to_zero_def)

lemma reduce_subtotal:
  "foldl (\<lambda>acc it. acc + item_subtotal it) a xs = foldl (+) a (map item_subtotal xs)"
  by (induction xs arbitrary: a) simp_all

lemma mk_item_None:
  "mk_item h r = None \<longleftrightarrow> unconvertible (hours r) \<or> unconvertible (hourlyCost r)"
  unfolding Number_None_iff [of h, symmetric]
  by (auto simp: mk_item_def Let_def split: option.splits)

lemma mk_item_Some:
  assumes "mk_item h r = Some it"
  shows "item_row it = r"
    and "map_option nan_to_zero (Number h (hours r)) = Some (item_hours it)"
    and "map_option nan_to_zero (Number h (hourlyCost r)) = Some (item_hourlyCost it)"
    and "item_subtotal it = item_hours it * item_hourlyCost it"
  using assms
  by (auto simp: mk_item_def Let_def num_or_zero split: option.splits)

lemma items_None:
  "those (map (mk_item h) rows) = None \<longleftrightarrow>
     (\<exists>r \<in> set rows. unconvertible (hours r) \<or> unconvertible (hourlyCost r))"
  by (simp add: those_map_None mk_item_None)

lemma items_Some:
  assumes "those (map (mk_item h) rows) = Some its"
  shows "length its = length rows"
    and "i < length rows \<Longrightarrow> mk_item h (rows ! i) = Some (its ! i)"
  using those_map_Some [OF assms] by simp_all

lemma computed_None:
  "computed h st rows cur = None \<longleftrightarrow>
     unconvertible (setting st ''igvRate'') \<or> unconvertible (setting st ''exchangeRate'')
     \<or> (\<exists>r \<in> set rows. unconvertible (hours r) \<or> unconvertible (hourlyCost r))"
proof -
  have "computed h st rows cur = None \<longleftrightarrow>
          those (map (mk_item h) rows) = None \<or> Number h (setting st ''igvRate'') = None
          \<or> Number h (setting st ''exchangeRate'') = None"
    by (auto simp: computed_def Let_def split: option.splits)
  then show ?thesis
    unfolding items_None Number_None_iff by blast
qed

lemma App_computed_None:
  "App_computed h rows cur = None \<longleftrightarrow>
     (\<exists>r \<in> set rows. unconvertible (hours r) \<or> unconvertible (hourlyCost r))"
proof -
  have "App_computed h rows cur = None \<longleftrightarrow> those (map (mk_item h) rows) = None"
    by (auto simp: App_computed_def Let_def split: option.splits)
  then show ?thesis
    unfolding items_None .
qed

lemma computed_Some:
  assumes "computed h st rows cur = Some c"
  shows "\<exists>t x. those (map (mk_item h) rows) = Some (items c)
         \<and> Number h (setting st ''igvRate'') = Some t
         \<and> Number h (setting st ''exchangeRate'') = Some x
         \<and> subtotal c = foldl (+) (Fin 0) (map item_subtotal (items c))
         \<and> igv c = subtotal c * nan_to_zero t
         \<and> total c = subtotal c + igv c
         \<and> subtotalOther c = convert (num_or x (Fin 1)) cur (subtotal c)
         \<and> igvOther c = convert (num_or x (Fin 1)) cur (igv c)
         \<and> totalOther c = convert (num_or x (Fin 1)) cur (total c)"
  using assms
  by (auto simp: computed_def Let_def reduce_subtotal num_or_zero split: option.splits)

lemma App_computed_Some:
  assumes "App_computed h rows cur = Some c"
  shows "those (map (mk_item h) rows) = Some (items c)
         \<and> subtotal c = foldl (+) (Fin 0) (map item_subtotal (items c))
         \<and> igv c = subtotal c * IGV_RATE
         \<and> total c = subtotal c + igv c"
  using assms
  by (auto simp: App_computed_def Let_def reduce_subtotal split: option.splits)

lemma pricing_of_items:
  assumes "those (map (mk_item h) rows) = Some (items c)"
    and "subtotal c = foldl (+) (Fin 0) (map item_subtotal (items c))"
    and "igv c = subtotal c * rate"
    and "total c = subtotal c + igv c"
  shows "pricing_spec nan_to_zero h rows rate c"
  unfolding pricing_spec_def
proof (intro conjI allI impI)
  show "length (items c) = length rows"
    using items_Some(1) [OF assms(1)] .
next
  fix i assume "i < length rows"
  then have m: "mk_item h (rows ! i) = Some (items c ! i)"
    using items_Some(2) [OF assms(1)] by simp
  show "item_row (items c ! i) = rows ! i"
    using mk_item_Some(1) [OF m] .
  show "map_option nan_to_zero (Number h (hours (rows ! i))) = Some (item_hours (items c ! i))"
    using mk_item_Some(2) [OF m] .
  show "map_option nan_to_zero (Number h (hourlyCost (rows ! i)))
          = Some (item_hourlyCost (items c ! i))"
    using mk_item_Some(3) [OF m] .
  show "item_subtotal (items c ! i) = item_hours (items c ! i) * item_hourlyCost (items c ! i)"
    using mk_item_Some(4) [OF m] .
qed (use assms in simp_all)

text \<open>
  C1 (as amended). In both variants the computation throws exactly when an operand of
  a row, or in the variant with settings the tax rate or the exchange rate, is a value
  on which \<^verbatim>\<open>Number\<close> throws. Otherwise every item carries its row, the operands
  coerced by \<^verbatim>\<open>Number(x) || 0\<close> (NaN becomes 0, every other number, the infinities
  included, stays) and their product; the subtotal is the sum of the items' subtotals,
  the tax is the subtotal times the rate (the constant 0.18, or the setting coerced the
  same way) and the total is the subtotal plus the tax.
\<close>

theorem pricing_computation:
  "(computed h st rows cur = None \<longleftrightarrow>
      unconvertible (setting st ''igvRate'') \<or> unconvertible (setting st ''exchangeRate'')
      \<or> (\<exists>r \<in> set rows. unconvertible (hours r) \<or> unconvertible (hourlyCost r)))
   \<and> (computed h st rows cur = Some c \<and> Number h (setting st ''igvRate'') = Some t \<longrightarrow>
        pricing_spec nan_to_zero h rows (nan_to_zero t) c)
   \<and> (App_computed h rows cur = None \<longleftrightarrow>
        (\<exists>r \<in> set rows. unconvertible (hours r) \<or> unconvertible (hourlyCost r)))
   \<and> (App_computed h rows cur = Some c' \<longrightarrow> pricing_spec nan_to_zero h rows IGV_RATE c')"
proof (intro conjI impI)
  show "computed h st rows cur = None \<longleftrightarrow>
      unconvertible (setting st ''igvRate'') \<or> unconvertible (setting st ''exchangeRate'')
      \<or> (\<exists>r \<in> set rows. unconvertible (hours r) \<or> unconvertible (hourlyCost r))"
    by (rule computed_None)
next
  assume a: "computed h st rows cur = Some c \<and> Number h (setting st ''igvRate'') = Some t"
  with computed_Some [of h st rows cur c] show "pricing_spec nan_to_zero h rows (nan_to_zero t) c"
    by (auto intro: pricing_of_items)
next
  show "App_computed h rows cur = None \<longleftrightarrow>
        (\<exists>r \<in> set rows. unconvertible (hours r) \<or> unconvertible (hourlyCost r))"
    by (rule App_computed_None)
next
  assume "App_computed h rows cur = Some c'"
  with App_computed_Some [of h rows cur c'] show "pricing_spec nan_to_zero h rows IGV_RATE c'"
    by (auto intro: pricing_of_items)
qed

lemma example_figures:
  "map_option subtotal (App_computed example_host example_rows PEN) = Some (Fin 2260)"
  "map_option igv (App_computed example_host example_rows PEN) = Some (Fin 406.8)"
  "map_option total (App_computed example_host example_rows PEN) = Some (Fin 2666.8)"
  by (simp_all add: App_computed_def mk_item_def example_rows_def num_or_def fin_small Let_def
      IGV_RATE_def)

lemma default_rates:
  "Number example_host (setting DEFAULT_SETTINGS ''igvRate'') = Some (Fin 0.18)"
  "Number example_host (setting DEFAULT_SETTINGS ''exchangeRate'') = Some (Fin 3.5)"
  by (simp_all add: setting_def DEFAULT_SETTINGS_def)

lemma example_rows_convertible:
  "\<not> (\<exists>r \<in> set example_rows. unconvertible (hours r) \<or> unconvertible (hourlyCost r))"
  by (simp add: example_rows_def)

lemma default_settings_convertible:
  "\<not> unconvertible (setting DEFAULT_SETTINGS ''igvRate'')"
  "\<not> unconvertible (setting DEFAULT_SETTINGS ''exchangeRate'')"
  by (simp_all add: setting_def DEFAULT_SETTINGS_def)

text \<open>The example of the specification: subtotals 1200, 400 and 660 at the rate 0.18.\<close>

theorem pricing_computation_witness:
  "map_option (pricing_spec nan_to_zero example_host example_rows (nan_to_zero (Fin 0.18)))
      (computed example_host DEFAULT_SETTINGS example_rows PEN) = Some True
   \<and> map_option (pricing_spec nan_to_zero example_host example_rows IGV_RATE)
      (App_computed example_host example_rows PEN) = Some True
   \<and> map_option subtotal (App_computed example_host example_rows PEN) = Some (Fin 2260)
   \<and> map_option igv (App_computed example_host example_rows PEN) = Some (Fin 406.8)
   \<and> map_option total (App_computed example_host example_rows PEN) = Some (Fin 2666.8)"
proof -
  have "computed example_host DEFAULT_SETTINGS example_rows PEN \<noteq> None"
    using pricing_computation [of example_host DEFAULT_SETTINGS example_rows PEN]
      example_rows_convertible default_settings_convertible by blast
  then obtain c where c: "computed example_host DEFAULT_SETTINGS example_rows PEN = Some c"
    by blast
  have "App_computed example_host example_rows PEN \<noteq> None"
    using pricing_computation [of example_host DEFAULT_SETTINGS example_rows PEN]
      example_rows_convertible by blast
  then obtain c' where c': "App_computed example_host example_rows PEN = Some c'"
    by blast
  from pricing_computation [of example_host DEFAULT_SETTINGS example_rows PEN c "Fin 0.18" c']
    c c' default_rates(1)
  have "pricing_spec nan_to_zero example_host example_rows (nan_to_zero (Fin 0.18)) c"
    and "pricing_spec nan_to_zero example_host example_rows IGV_RATE c'"
    by blast+
  with c c' example_figures show ?thesis
    by simp
qed

text \<open>
  C1 as stated fails. Hours that are infinite are not replaced by 0, and the subtotal
  of the item is infinite. With stored settings whose tax rate is an object that has a
  member named toString, the computation throws.
\<close>

theorem pricing_infinite_hours_counterexample:
  "map_option
      (pricing_spec finite_or_zero example_host (one_row (JNum PInf) (JNum (Fin 60))) (Fin 0.18))
      (computed example_host DEFAULT_SETTINGS (one_row (JNum PInf) (JNum (Fin 60))) PEN)
     = Some False
   \<and> computed example_host
        (load_settings example_host (Some json_own_toString) DEFAULT_SETTINGS) example_rows PEN
     = None"
proof -
  have 1: "map_option
      (pricing_spec finite_or_zero example_host (one_row (JNum PInf) (JNum (Fin 60))) (Fin 0.18))
      (computed example_host DEFAULT_SETTINGS (one_row (JNum PInf) (JNum (Fin 60))) PEN)
     = Some False"
    by (simp add: computed_def mk_item_def num_or_def Let_def one_row_def default_rates
        pricing_spec_def finite_or_zero_def)
  have "unconvertible
          (setting (load_settings example_host (Some json_own_toString) DEFAULT_SETTINGS) ''igvRate'')"
    by (simp add: load_settings_def parse_item_def str_or_def example_host_def
        example_JSON_parse_def json_own_toString_def setting_def)
  then have 2: "computed example_host
        (load_settings example_host (Some json_own_toString) DEFAULT_SETTINGS) example_rows PEN
     = None"
    by (simp add: computed_None)
  from 1 2 show ?thesis by simp
qed

section \<open>Properties of the exported rows\<close>

lemma nat_to_string_digit: "n < 10 \<Longrightarrow> nat_to_string n = [digit_char n]"
  by (subst nat_to_string.simps) simp

lemma cot_body_view:
  "generatePdfCotizacion_body h svcs c cur =
     map (\<lambda>(st, d, sub). [str_or (case getServiceByCode svcs st of
                                None \<Rightarrow> [] | Some s \<Rightarrow> label s) st, str_or d [], moneyFmt h sub cur])
       (map exported_view (items c))"
  by (simp add: generatePdfCotizacion_body_def Let_def exported_view_def comp_def)

lemma app_body_view:
  "generatePdf_body h c cur =
     map (\<lambda>((st, d, sub), hrs). [getServiceLabel st, str_or d [],
             NumberToString h hrs, moneyFmt h sub cur])
       (zip (map exported_view (items c)) (map item_hours (items c)))"
  by (simp add: generatePdf_body_def exported_view_def zip_map_map comp_def zip_same_conv_map)

text \<open>
  C2 (as amended). The rows that \<^verbatim>\<open>generatePdfCotizacion\<close> hands to the table have
  three cells each (label, detail, formatted subtotal) and are determined by the
  service, the detail and the subtotal of the items: neither the hours nor the hourly
  cost reach them otherwise. The rows of \<^verbatim>\<open>generatePdf\<close> (src/src/App.js) are
  determined by the same three and the hours: the hourly cost does not reach them, the
  hours do.
\<close>

theorem pdf_rows_projection:
  "(\<forall>cells \<in> set (generatePdfCotizacion_body h svcs c cur). length cells = 3)
   \<and> (map exported_view (items c) = map exported_view (items c') \<longrightarrow>
        generatePdfCotizacion_body h svcs c cur = generatePdfCotizacion_body h svcs c' cur)
   \<and> (map exported_view (items c) = map exported_view (items c')
        \<and> map item_hours (items c) = map item_hours (items c') \<longrightarrow>
        generatePdf_body h c cur = generatePdf_body h c' cur)"
proof (intro conjI impI)
  show "\<forall>cells \<in> set (generatePdfCotizacion_body h svcs c cur). length cells = 3"
    by (auto simp: generatePdfCotizacion_body_def Let_def)
next
  assume "map exported_view (items c) = map exported_view (items c')"
  then show "generatePdfCotizacion_body h svcs c cur = generatePdfCotizacion_body h svcs c' cur"
    by (simp only: cot_body_view)
next
  assume a: "map exported_view (items c) = map exported_view (items c')
        \<and> map item_hours (items c) = map item_hours (items c')"
  then show "generatePdf_body h c cur = generatePdf_body h c' cur"
    by (simp only: app_body_view)
qed

lemma one_row_items:
  "\<bar>a * b\<bar> \<le> 10 ^ 30 \<Longrightarrow> a \<noteq> 0 \<Longrightarrow> b \<noteq> 0 \<Longrightarrow>
   those (map (mk_item h) (one_row (JNum (Fin a)) (JNum (Fin b)))) =
     Some [\<lparr>item_row = \<lparr>row_id = ''r1'', serviceType = ''creacion_web'', detail = [],
                         hours = JNum (Fin a), hourlyCost = JNum (Fin b)\<rparr>,
            item_hours = Fin a, item_hourlyCost = Fin b, item_subtotal = Fin (a * b)\<rparr>]"
  by (simp add: mk_item_def num_or_def Let_def one_row_def fin_small)

lemma one_row_computed:
  assumes "\<bar>a * b\<bar> \<le> 10 ^ 30" "a \<noteq> 0" "b \<noteq> 0"
  shows "\<exists>c. computed example_host DEFAULT_SETTINGS (one_row (JNum (Fin a)) (JNum (Fin b))) cur
              = Some c
           \<and> items c =
               [\<lparr>item_row = \<lparr>row_id = ''r1'', serviceType = ''creacion_web'', detail = [],
                              hours = JNum (Fin a), hourlyCost = JNum (Fin b)\<rparr>,
                 item_hours = Fin a, item_hourlyCost = Fin b, item_subtotal = Fin (a * b)\<rparr>]"
    and "\<exists>c. App_computed example_host (one_row (JNum (Fin a)) (JNum (Fin b))) cur = Some c
           \<and> items c =
               [\<lparr>item_row = \<lparr>row_id = ''r1'', serviceType = ''creacion_web'', detail = [],
                              hours = JNum (Fin a), hourlyCost = JNum (Fin b)\<rparr>,
                 item_hours = Fin a, item_hourlyCost = Fin b, item_subtotal = Fin (a * b)\<rparr>]"
  using one_row_items [OF assms, of example_host]
  by (simp_all add: computed_def App_computed_def default_rates Let_def)

text \<open>
  Two rows of 2 hours at 6 and of 3 hours at 4 give the same rows in
  \<^verbatim>\<open>generatePdfCotizacion\<close>.
\<close>

theorem pdf_rows_projection_witness:
  "Cotizacion_views example_host DEFAULT_SETTINGS (one_row (JNum (Fin 2)) (JNum (Fin 6))) PEN
     = Some [(''creacion_web'', [], Fin 12)]
   \<and> Cotizacion_views example_host DEFAULT_SETTINGS (one_row (JNum (Fin 3)) (JNum (Fin 4))) PEN
     = Some [(''creacion_web'', [], Fin 12)]
   \<and> map_option (map length)
        (Cotizacion_pdf_rows example_host DEFAULT_SERVICES DEFAULT_SETTINGS
           (one_row (JNum (Fin 2)) (JNum (Fin 6))) PEN) = Some [3]
   \<and> Cotizacion_pdf_rows example_host DEFAULT_SERVICES DEFAULT_SETTINGS
        (one_row (JNum (Fin 2)) (JNum (Fin 6))) PEN
     = Cotizacion_pdf_rows example_host DEFAULT_SERVICES DEFAULT_SETTINGS
        (one_row (JNum (Fin 3)) (JNum (Fin 4))) PEN
   \<and> App_views example_host (one_row (JNum (Fin 2)) (JNum (Fin 6))) PEN
     = App_views example_host (one_row (JNum (Fin 2)) (JNum (Fin 6))) USD
   \<and> App_hours example_host (one_row (JNum (Fin 2)) (JNum (Fin 6))) PEN
     = App_hours example_host (one_row (JNum (Fin 2)) (JNum (Fin 6))) USD
   \<and> App_pdf_rows example_host (one_row (JNum (Fin 2)) (JNum (Fin 6))) PEN
     = map_option (\<lambda>c. generatePdf_body example_host c PEN)
         (App_computed example_host (one_row (JNum (Fin 2)) (JNum (Fin 6))) USD)"
proof -
  obtain c1 where c1:
    "computed example_host DEFAULT_SETTINGS (one_row (JNum (Fin 2)) (JNum (Fin 6))) PEN = Some c1"
    and i1: "map exported_view (items c1) = [(''creacion_web'', [], Fin 12)]"
    using one_row_computed(1) [of 2 6 PEN] by (auto simp: exported_view_def)
  obtain c2 where c2:
    "computed example_host DEFAULT_SETTINGS (one_row (JNum (Fin 3)) (JNum (Fin 4))) PEN = Some c2"
    and i2: "map exported_view (items c2) = [(''creacion_web'', [], Fin 12)]"
    using one_row_computed(1) [of 3 4 PEN] by (auto simp: exported_view_def)
  obtain c3 where c3:
    "App_computed example_host (one_row (JNum (Fin 2)) (JNum (Fin 6))) PEN = Some c3"
    and i3: "map exported_view (items c3) = [(''creacion_web'', [], Fin 12)]"
    and h3: "map item_hours (items c3) = [Fin 2]"
    using one_row_computed(2) [of 2 6 PEN] by (auto simp: exported_view_def)
  obtain c4 where c4:
    "App_computed example_host (one_row (JNum (Fin 2)) (JNum (Fin 6))) USD = Some c4"
    and i4: "map exported_view (items c4) = [(''creacion_web'', [], Fin 12)]"
    and h4: "map item_hours (items c4) = [Fin 2]"
    using one_row_computed(2) [of 2 6 USD] by (auto simp: exported_view_def)
  note a = pdf_rows_projection [of example_host DEFAULT_SERVICES c1 PEN c2]
  note b = pdf_rows_projection [of example_host DEFAULT_SERVICES c3 PEN c4]
  have l: "length (generatePdfCotizacion_body example_host DEFAULT_SERVICES c1 PEN) = 1"
    using arg_cong [OF i1, of length] by (simp add: generatePdfCotizacion_body_def)
  have "\<forall>cells \<in> set (generatePdfCotizacion_body example_host DEFAULT_SERVICES c1 PEN).
          length cells = 3"
    using a by blast
  with l have 3: "map length (generatePdfCotizacion_body example_host DEFAULT_SERVICES c1 PEN) = [3]"
    by (cases "generatePdfCotizacion_body example_host DEFAULT_SERVICES c1 PEN") auto
  have 4: "generatePdfCotizacion_body example_host DEFAULT_SERVICES c1 PEN
         = generatePdfCotizacion_body example_host DEFAULT_SERVICES c2 PEN"
    using a i1 i2 by simp
  have 5: "generatePdf_body example_host c3 PEN = generatePdf_body example_host c4 PEN"
    using b i3 i4 h3 h4 by simp
  show ?thesis
    using c1 c2 c3 c4 i1 i2 i3 i4 h3 h4 3 4 5
    by (simp add: Cotizacion_views_def Cotizacion_pdf_rows_def App_views_def App_hours_def
        App_pdf_rows_def)
qed

text \<open>
  C2 as stated fails for \<^verbatim>\<open>generatePdf\<close>: two items with the same service, detail
  and subtotal are exported with their hours, 2 and 3, in the third cell.
\<close>

theorem pdf_hours_counterexample:
  "App_views example_host (one_row (JNum (Fin 2)) (JNum (Fin 6))) PEN
     = App_views example_host (one_row (JNum (Fin 3)) (JNum (Fin 4))) PEN
   \<and> map_option third_column (App_pdf_rows example_host (one_row (JNum (Fin 2)) (JNum (Fin 6))) PEN)
     = Some [''2'']
   \<and> map_option third_column (App_pdf_rows example_host (one_row (JNum (Fin 3)) (JNum (Fin 4))) PEN)
     = Some [''3'']"
  by (simp add: App_views_def App_pdf_rows_def third_column_def App_computed_def mk_item_def
      one_row_def num_or_def fin_small Let_def exported_view_def generatePdf_body_def
      example_host_def example_NumberToString_def nat_to_string_digit digit_char_def)

section \<open>Properties of the currency conversion\<close>










lemma valid_foldl: "valid a \<Longrightarrow> valid (foldl (+) a xs)"
  by (induction xs arbitrary: a) (simp_all add: valid_plus)

lemma valid_figures:
  assumes "computed h st rows cur = Some c"
  shows "valid (subtotal c)" and "valid (igv c)" and "valid (total c)"
proof -
  from computed_Some [OF assms] obtain t where
    s: "subtotal c = foldl (+) (Fin 0) (map item_subtotal (items c))"
    and i: "igv c = subtotal c * nan_to_zero t" and t: "total c = subtotal c + igv c"
    by blast
  have "valid (Fin 0)"
    by (simp add: valid_def in_range_def OVERFLOW_def)
  then show "valid (subtotal c)"
    unfolding s by (rule valid_foldl)
  show "valid (igv c)"
    unfolding i by (rule valid_times)
  show "valid (total c)"
    unfolding t by (rule valid_plus)
qed

lemma convert_rate_one:
  "valid x \<Longrightarrow> convert (Fin 1) cur x = (if isFinite x then x else Fin 0)"
  by (cases x) (simp_all add: convert_def valid_def fin_in_range)

lemma rate_of_falsy:
  "n = Fin 0 \<or> n = NaN \<Longrightarrow> num_or n (Fin 1) = Fin 1"
  by (auto simp: num_or_def)

lemma rate_of_negative: "r < 0 \<Longrightarrow> num_or (Fin r) (Fin 1) = Fin r"
  by (simp add: num_or_def)

text \<open>
  C10 (as amended). When the exchange rate setting coerces to 0 or to NaN, the rate
  used is 1: the computation throws only when the tax rate or an operand of a row is
  a value on which \<^verbatim>\<open>Number\<close> throws, and otherwise each figure in the other
  currency equals the figure in the primary currency when that figure is finite, and
  is 0 when it is not. There is no check of the sign: a negative rate is used as it
  is.
\<close>

theorem zero_rate_is_one:
  "(Number h (setting st ''exchangeRate'') = Some (Fin 0)
      \<or> Number h (setting st ''exchangeRate'') = Some NaN \<longrightarrow>
      (computed h st rows cur = None \<longleftrightarrow>
         unconvertible (setting st ''igvRate'')
         \<or> (\<exists>r \<in> set rows. unconvertible (hours r) \<or> unconvertible (hourlyCost r)))
      \<and> (computed h st rows cur = Some c \<longrightarrow>
           subtotalOther c = (if isFinite (subtotal c) then subtotal c else Fin 0)
           \<and> igvOther c = (if isFinite (igv c) then igv c else Fin 0)
           \<and> totalOther c = (if isFinite (total c) then total c else Fin 0)))
   \<and> (Number h (setting st ''exchangeRate'') = Some (Fin q) \<and> q < 0
        \<and> computed h st rows cur = Some c \<longrightarrow>
        subtotalOther c = convert (Fin q) cur (subtotal c)
        \<and> igvOther c = convert (Fin q) cur (igv c)
        \<and> totalOther c = convert (Fin q) cur (total c))"
proof (intro conjI impI)
  assume z: "Number h (setting st ''exchangeRate'') = Some (Fin 0)
      \<or> Number h (setting st ''exchangeRate'') = Some NaN"
  then have "\<not> unconvertible (setting st ''exchangeRate'')"
    using Number_None_iff [of h "setting st ''exchangeRate''"] by auto
  then show "computed h st rows cur = None \<longleftrightarrow>
         unconvertible (setting st ''igvRate'')
         \<or> (\<exists>r \<in> set rows. unconvertible (hours r) \<or> unconvertible (hourlyCost r))"
    by (simp add: computed_None)
  { assume c: "computed h st rows cur = Some c"
    from computed_Some [OF c] obtain x where
      x: "Number h (setting st ''exchangeRate'') = Some x"
      and o: "subtotalOther c = convert (num_or x (Fin 1)) cur (subtotal c)"
        "igvOther c = convert (num_or x (Fin 1)) cur (igv c)"
        "totalOther c = convert (num_or x (Fin 1)) cur (total c)"
      by blast
    from z x have "num_or x (Fin 1) = Fin 1"
      by (auto simp: rate_of_falsy)
    with o valid_figures [OF c]
    show "subtotalOther c = (if isFinite (subtotal c) then subtotal c else Fin 0)"
      and "igvOther c = (if isFinite (igv c) then igv c else Fin 0)"
      and "totalOther c = (if isFinite (total c) then total c else Fin 0)"
      by (simp_all add: convert_rate_one) }
next
  assume a: "Number h (setting st ''exchangeRate'') = Some (Fin q) \<and> q < 0
        \<and> computed h st rows cur = Some c"
  from computed_Some [of h st rows cur c] a obtain x where
    x: "Number h (setting st ''exchangeRate'') = Some x"
    and o: "subtotalOther c = convert (num_or x (Fin 1)) cur (subtotal c)"
      "igvOther c = convert (num_or x (Fin 1)) cur (igv c)"
      "totalOther c = convert (num_or x (Fin 1)) cur (total c)"
    by blast
  from a x have "num_or x (Fin 1) = Fin q"
    by (auto simp: rate_of_negative)
  with o show "subtotalOther c = convert (Fin q) cur (subtotal c)"
    and "igvOther c = convert (Fin q) cur (igv c)"
    and "totalOther c = convert (Fin q) cur (total c)"
    by simp_all
qed

lemma example_totals:
  "map_option subtotal (computed example_host zero_rate_settings example_rows PEN) = Some (Fin 2260)"
  "map_option igv (computed example_host zero_rate_settings example_rows PEN) = Some (Fin 406.8)"
  "map_option total (computed example_host zero_rate_settings example_rows PEN) = Some (Fin 2666.8)"
  "map_option subtotal (computed example_host negative_rate_settings example_rows PEN)
     = Some (Fin 2260)"
  by (simp_all add: computed_def Let_def example_rows_def mk_item_def num_or_def fin_small
      zero_rate_settings_def negative_rate_settings_def DEFAULT_SETTINGS_def setting_def)

lemma example_rates:
  "Number example_host (setting zero_rate_settings ''exchangeRate'') = Some (Fin 0)"
  "Number example_host (setting negative_rate_settings ''exchangeRate'') = Some (Fin (- 2))"
  by (simp_all add: zero_rate_settings_def negative_rate_settings_def setting_def)

text \<open>
  With a rate of 0 the figures of the example are converted to themselves; with a rate
  of -2 the subtotal 2260 in soles is converted to -1130.
\<close>

theorem zero_rate_is_one_witness:
  "Number example_host (setting zero_rate_settings ''exchangeRate'') = Some (Fin 0)
   \<and> map_option subtotalOther (computed example_host zero_rate_settings example_rows PEN)
       = Some (Fin 2260)
   \<and> map_option igvOther (computed example_host zero_rate_settings example_rows PEN)
       = Some (Fin 406.8)
   \<and> map_option totalOther (computed example_host zero_rate_settings example_rows PEN)
       = Some (Fin 2666.8)
   \<and> Number example_host (setting negative_rate_settings ''exchangeRate'') = Some (Fin (- 2))
   \<and> map_option subtotalOther (computed example_host negative_rate_settings example_rows PEN)
       = Some (Fin (- 1130))"
proof -
  obtain c where c: "computed example_host zero_rate_settings example_rows PEN = Some c"
    and f: "subtotal c = Fin 2260" "igv c = Fin 406.8" "total c = Fin 2666.8"
    using example_totals(1-3) by auto
  obtain d where d: "computed example_host negative_rate_settings example_rows PEN = Some d"
    and g: "subtotal d = Fin 2260"
    using example_totals(4) by auto
  from zero_rate_is_one [of example_host zero_rate_settings example_rows PEN c] example_rates(1) c f
  have 1: "subtotalOther c = Fin 2260" "igvOther c = Fin 406.8" "totalOther c = Fin 2666.8"
    by simp_all
  from zero_rate_is_one [of example_host negative_rate_settings example_rows PEN d "- 2"]
    example_rates(2) d
  have "subtotalOther d = convert (Fin (- 2)) PEN (subtotal d)"
    by simp
  then have 2: "subtotalOther d = Fin (- 1130)"
    by (simp add: g convert_def fin_small)
  from 1 2 c d example_rates show ?thesis
    by simp
qed

text \<open>
  C10 as stated fails when a figure is not finite: with an infinite tax rate the tax
  and the total are infinite and their conversions are 0.
\<close>

theorem zero_rate_infinite_tax_counterexample:
  "Number example_host (setting infinite_tax_settings ''exchangeRate'') = Some (Fin 0)
   \<and> map_option igv (computed example_host infinite_tax_settings example_rows PEN) = Some PInf
   \<and> map_option igvOther (computed example_host infinite_tax_settings example_rows PEN)
       = Some (Fin 0)
   \<and> map_option total (computed example_host infinite_tax_settings example_rows PEN) = Some PInf
   \<and> map_option totalOther (computed example_host infinite_tax_settings example_rows PEN)
       = Some (Fin 0)"
  by (simp add: computed_def Let_def example_rows_def mk_item_def num_or_def fin_small
      infinite_tax_settings_def DEFAULT_SETTINGS_def setting_def convert_def)

section \<open>Properties of the service catalog\<close>

lemma find_None_strict:
  "(\<forall>s \<in> set svcs. \<not> strict_eq (svc_id s) i) \<Longrightarrow> find (\<lambda>s. strict_eq (svc_id s) i) svcs = None"
  by (simp add: find_None_iff)

lemma filter_is_remove1:
  "distinct (map f xs) \<Longrightarrow> find (\<lambda>s. f s = i) xs = Some x \<Longrightarrow>
     filter (\<lambda>s. f s \<noteq> i) xs = remove1 x xs"
proof (induction xs)
  case Nil
  then show ?case by simp
next
  case (Cons y ys)
  show ?case
  proof (cases "f y = i")
    case True
    with Cons.prems have "x = y" by simp
    moreover from True Cons.prems have "\<forall>s \<in> set ys. f s \<noteq> i" by (auto simp: image_iff)
    then have "filter (\<lambda>s. f s \<noteq> i) ys = ys" by (simp add: filter_id_conv)
    ultimately show ?thesis using True by simp
  next
    case False
    with Cons.prems have "find (\<lambda>s. f s = i) ys = Some x" and "distinct (map f ys)" by simp_all
    moreover from this have "f x = i" by (auto simp: find_Some_iff)
    ultimately show ?thesis using False Cons.IH by auto
  qed
qed

lemma strict_eq_found:
  "find (\<lambda>s. strict_eq (svc_id s) i) svcs = Some svc \<Longrightarrow> strict_eq v i = (v = i)"
  by (auto simp: find_Some_iff strict_eq_def)

text \<open>
  C5 (as amended). When no entry has the identifier, \<^verbatim>\<open>deleteService\<close> returns
  silently: no alert, the catalog unchanged. When \<open>svc\<close> is the first entry with the
  identifier: a catalog of one entry raises the alert and stays unchanged; a longer
  catalog stays unchanged when the confirmation is refused and loses the entries with
  that identifier when it is accepted, which removes exactly \<open>svc\<close> when identifiers
  are pairwise different.
\<close>

theorem delete_service_outcomes:
  "((\<forall>s \<in> set svcs. \<not> strict_eq (svc_id s) i) \<longrightarrow> deleteService confirm i svcs = (None, svcs))
   \<and> (find (\<lambda>s. strict_eq (svc_id s) i) svcs = Some svc \<longrightarrow>
        (length svcs \<le> 1 \<longrightarrow> deleteService confirm i svcs = (Some MinOneService, svcs))
        \<and> (1 < length svcs \<and> \<not> confirm svc \<longrightarrow> deleteService confirm i svcs = (None, svcs))
        \<and> (1 < length svcs \<and> confirm svc \<longrightarrow>
             deleteService confirm i svcs = (None, filter (\<lambda>s. \<not> strict_eq (svc_id s) i) svcs))
        \<and> (1 < length svcs \<and> confirm svc \<and> distinct (map svc_id svcs) \<longrightarrow>
             deleteService confirm i svcs = (None, remove1 svc svcs)))"
proof (intro conjI impI)
  assume "\<forall>s \<in> set svcs. \<not> strict_eq (svc_id s) i"
  then show "deleteService confirm i svcs = (None, svcs)"
    by (simp add: deleteService_def find_None_strict)
next
  assume f: "find (\<lambda>s. strict_eq (svc_id s) i) svcs = Some svc"
  { assume "length svcs \<le> 1"
    then show "deleteService confirm i svcs = (Some MinOneService, svcs)"
      using f by (simp add: deleteService_def) }
  { assume "1 < length svcs \<and> \<not> confirm svc"
    then show "deleteService confirm i svcs = (None, svcs)"
      using f by (simp add: deleteService_def) }
  { assume "1 < length svcs \<and> confirm svc"
    then show "deleteService confirm i svcs = (None, filter (\<lambda>s. \<not> strict_eq (svc_id s) i) svcs)"
      using f by (simp add: deleteService_def) }
  { assume a: "1 < length svcs \<and> confirm svc \<and> distinct (map svc_id svcs)"
    note e = strict_eq_found [OF f]
    have "find (\<lambda>s. svc_id s = i) svcs = Some svc"
      using f by (simp add: e)
    with a have "filter (\<lambda>s. svc_id s \<noteq> i) svcs = remove1 svc svcs"
      by (simp add: filter_is_remove1)
    then show "deleteService confirm i svcs = (None, remove1 svc svcs)"
      using a f by (simp add: deleteService_def e) }
qed

lemma default_ids:
  "find (\<lambda>s. strict_eq (svc_id s) (JStr ''srv_creacion_web'')) DEFAULT_SERVICES
     = Some (hd DEFAULT_SERVICES)"
  "find (\<lambda>s. strict_eq (svc_id s) (JStr ''srv_creacion_web'')) [hd DEFAULT_SERVICES]
     = Some (hd DEFAULT_SERVICES)"
  "distinct (map svc_id DEFAULT_SERVICES)"
  "1 < length DEFAULT_SERVICES"
  "length [hd DEFAULT_SERVICES] \<le> 1"
  "\<forall>s \<in> set DEFAULT_SERVICES. \<not> strict_eq (svc_id s) (JStr ''srv_missing'')"
  "accept_all (hd DEFAULT_SERVICES)"
  "\<not> refuse_all (hd DEFAULT_SERVICES)"
  by (simp_all add: DEFAULT_SERVICES_def strict_eq_def accept_all_def refuse_all_def)

theorem delete_service_outcomes_witness:
  "find (\<lambda>s. strict_eq (svc_id s) (JStr ''srv_creacion_web'')) DEFAULT_SERVICES
     = Some (hd DEFAULT_SERVICES)
   \<and> deleteService accept_all (JStr ''srv_creacion_web'') DEFAULT_SERVICES
     = (None, remove1 (hd DEFAULT_SERVICES) DEFAULT_SERVICES)
   \<and> deleteService refuse_all (JStr ''srv_creacion_web'') DEFAULT_SERVICES
     = (None, DEFAULT_SERVICES)
   \<and> deleteService accept_all (JStr ''srv_creacion_web'') [hd DEFAULT_SERVICES]
     = (Some MinOneService, [hd DEFAULT_SERVICES])
   \<and> deleteService accept_all (JStr ''srv_missing'') DEFAULT_SERVICES = (None, DEFAULT_SERVICES)"
proof -
  have 1: "deleteService accept_all (JStr ''srv_creacion_web'') DEFAULT_SERVICES
     = (None, remove1 (hd DEFAULT_SERVICES) DEFAULT_SERVICES)"
    using delete_service_outcomes
      [of DEFAULT_SERVICES "JStr ''srv_creacion_web''" accept_all "hd DEFAULT_SERVICES"]
    default_ids by blast
  have 2: "deleteService refuse_all (JStr ''srv_creacion_web'') DEFAULT_SERVICES
     = (None, DEFAULT_SERVICES)"
    using delete_service_outcomes
      [of DEFAULT_SERVICES "JStr ''srv_creacion_web''" refuse_all "hd DEFAULT_SERVICES"]
    default_ids by blast
  have 3: "deleteService accept_all (JStr ''srv_creacion_web'') [hd DEFAULT_SERVICES]
     = (Some MinOneService, [hd DEFAULT_SERVICES])"
    using delete_service_outcomes
      [of "[hd DEFAULT_SERVICES]" "JStr ''srv_creacion_web''" accept_all "hd DEFAULT_SERVICES"]
    default_ids by blast
  have 4: "deleteService accept_all (JStr ''srv_missing'') DEFAULT_SERVICES
     = (None, DEFAULT_SERVICES)"
    using delete_service_outcomes
      [of DEFAULT_SERVICES "JStr ''srv_missing''" accept_all "hd DEFAULT_SERVICES"]
    default_ids by blast
  from 1 2 3 4 default_ids(1) show ?thesis by simp
qed

text \<open>
  C5 as stated fails: for an identifier that no entry has, \<^verbatim>\<open>deleteService\<close> raises
  no alert, in a catalog of three entries and in a catalog of one.
\<close>

theorem delete_missing_id_counterexample:
  "fst (deleteService accept_all (JStr ''srv_missing'') DEFAULT_SERVICES) = None
   \<and> fst (deleteService accept_all (JStr ''srv_missing'') [hd DEFAULT_SERVICES]) = None"
  by (simp add: deleteService_def DEFAULT_SERVICES_def strict_eq_def)

lemma resolved_code_eq:
  "resolved_code ns = trim (str_or (ns_code ns) (slugifyCode (trim (ns_label ns))))"
  by (simp add: resolved_code_def str_or_def)

lemma str_or_empty: "str_or a [] = a"
  by (simp add: str_or_def)

lemma add_rejected:
  assumes "trim (ns_label (newService s)) = [] \<or> resolved_code (newService s) = []
           \<or> resolved_code (newService s) \<in> code ` set (services s)"
  shows "fst (addServiceFromAdmin fresh s) \<noteq> None \<and> snd (addServiceFromAdmin fresh s) = s"
  using assms
  by (auto simp: addServiceFromAdmin_def Let_def resolved_code_eq str_or_empty list_ex_iff)

lemma add_rejected_many:
  assumes "resolved_code (newService s) \<in> code ` set (services s)"
  shows "foldl (\<lambda>t f. snd (addServiceFromAdmin f t)) s freshs = s"
  using assms by (induction freshs) (simp_all add: add_rejected)

lemma add_accepted:
  assumes "\<not> (trim (ns_label (newService s)) = [] \<or> resolved_code (newService s) = []
           \<or> resolved_code (newService s) \<in> code ` set (services s))"
  shows "addServiceFromAdmin fresh s =
           (None,
            \<lparr>services = services s @
               [\<lparr>svc_id = JStr fresh, code = resolved_code (newService s),
                 label = trim (ns_label (newService s)),
                 suggestion = ns_suggestion (newService s),
                 defaultHourlyCost = nan_to_zero (ns_defaultHourlyCost (newService s))\<rparr>],
             newService = blank_new_service\<rparr>)"
  using assms
  by (auto simp: addServiceFromAdmin_def Let_def resolved_code_eq str_or_empty list_ex_iff
      num_or_zero image_iff)

text \<open>
  C6. \<^verbatim>\<open>addServiceFromAdmin\<close> raises an alert and changes nothing when the trimmed
  label is empty, the resolved code is empty or the resolved code is the code of an
  entry; repeating it with a code that exists, any number of times, changes nothing.
  Otherwise it raises no alert, appends the new entry and resets the form.
\<close>

theorem add_service_outcomes:
  "(trim (ns_label (newService s)) = [] \<or> resolved_code (newService s) = []
      \<or> resolved_code (newService s) \<in> code ` set (services s) \<longrightarrow>
        fst (addServiceFromAdmin fresh s) \<noteq> None \<and> snd (addServiceFromAdmin fresh s) = s)
   \<and> (resolved_code (newService s) \<in> code ` set (services s) \<longrightarrow>
        foldl (\<lambda>t f. snd (addServiceFromAdmin f t)) s freshs = s)
   \<and> (\<not> (trim (ns_label (newService s)) = [] \<or> resolved_code (newService s) = []
          \<or> resolved_code (newService s) \<in> code ` set (services s)) \<longrightarrow>
        addServiceFromAdmin fresh s =
           (None,
            \<lparr>services = services s @
               [\<lparr>svc_id = JStr fresh, code = resolved_code (newService s),
                 label = trim (ns_label (newService s)),
                 suggestion = ns_suggestion (newService s),
                 defaultHourlyCost = nan_to_zero (ns_defaultHourlyCost (newService s))\<rparr>],
             newService = blank_new_service\<rparr>))"
  using add_rejected [of s fresh] add_rejected_many [of s freshs] add_accepted [of s fresh]
  by blast

lemma form_codes:
  "resolved_code (newService (form_with ''Creacion Web'')) = ''creacion_web''"
  "resolved_code (newService (form_with '' Audit '')) = ''audit''"
  "trim (ns_label (newService (form_with '' Audit ''))) = ''Audit''"
  "trim (ns_label (newService (form_with ''   ''))) = []"
  "resolved_code (newService (form_with ''!!!'')) = []"
  by code_simp+

lemma form_facts:
  "resolved_code (newService (form_with ''Creacion Web'')) \<in> code ` set (services (form_with ''Creacion Web''))"
  "\<not> (trim (ns_label (newService (form_with '' Audit ''))) = []
      \<or> resolved_code (newService (form_with '' Audit '')) = []
      \<or> resolved_code (newService (form_with '' Audit ''))
           \<in> code ` set (services (form_with '' Audit '')))"
  by (simp_all add: form_codes) (simp_all add: form_with_def DEFAULT_SERVICES_def)

theorem add_service_outcomes_witness:
  "fst (addServiceFromAdmin ''id1'' (form_with ''Creacion Web'')) \<noteq> None
   \<and> snd (addServiceFromAdmin ''id1'' (form_with ''Creacion Web''))
       = form_with ''Creacion Web''
   \<and> foldl (\<lambda>t f. snd (addServiceFromAdmin f t)) (form_with ''Creacion Web'')
        [''id1'', ''id2'', ''id3''] = form_with ''Creacion Web''
   \<and> fst (addServiceFromAdmin ''id1'' (form_with ''   '')) \<noteq> None
   \<and> fst (addServiceFromAdmin ''id1'' (form_with ''!!!'')) \<noteq> None
   \<and> addServiceFromAdmin ''id1'' (form_with '' Audit '') =
        (None,
         \<lparr>services = DEFAULT_SERVICES @
            [\<lparr>svc_id = JStr ''id1'', code = ''audit'', label = ''Audit'',
              suggestion = ''Review'', defaultHourlyCost = Fin 75\<rparr>],
          newService = blank_new_service\<rparr>)"
proof -
  note dup = add_service_outcomes
    [of "form_with ''Creacion Web''" "''id1''" "[''id1'', ''id2'', ''id3'']"]
  note blank = add_service_outcomes [of "form_with ''   ''" "''id1''" "[]"]
  note bang = add_service_outcomes [of "form_with ''!!!''" "''id1''" "[]"]
  note ok = add_service_outcomes [of "form_with '' Audit ''" "''id1''" "[]"]
  have 1: "fst (addServiceFromAdmin ''id1'' (form_with ''Creacion Web'')) \<noteq> None
     \<and> snd (addServiceFromAdmin ''id1'' (form_with ''Creacion Web''))
       = form_with ''Creacion Web''
     \<and> foldl (\<lambda>t f. snd (addServiceFromAdmin f t)) (form_with ''Creacion Web'')
        [''id1'', ''id2'', ''id3''] = form_with ''Creacion Web''"
    using dup form_facts(1) by blast
  have 2: "fst (addServiceFromAdmin ''id1'' (form_with ''   '')) \<noteq> None"
    using blank form_codes(4) by blast
  have 3: "fst (addServiceFromAdmin ''id1'' (form_with ''!!!'')) \<noteq> None"
    using bang form_codes(5) by blast
  have "addServiceFromAdmin ''id1'' (form_with '' Audit '') =
           (None,
            \<lparr>services = services (form_with '' Audit '') @
               [\<lparr>svc_id = JStr ''id1'', code = resolved_code (newService (form_with '' Audit '')),
                 label = trim (ns_label (newService (form_with '' Audit ''))),
                 suggestion = ns_suggestion (newService (form_with '' Audit '')),
                 defaultHourlyCost =
                   nan_to_zero (ns_defaultHourlyCost (newService (form_with '' Audit '')))\<rparr>],
             newService = blank_new_service\<rparr>)"
    using ok form_facts(2) by blast
  then have 4: "addServiceFromAdmin ''id1'' (form_with '' Audit '') =
        (None,
         \<lparr>services = DEFAULT_SERVICES @
            [\<lparr>svc_id = JStr ''id1'', code = ''audit'', label = ''Audit'',
              suggestion = ''Review'', defaultHourlyCost = Fin 75\<rparr>],
          newService = blank_new_service\<rparr>)"
    by (simp add: form_codes) (simp add: form_with_def nan_to_zero_def)
  from 1 2 3 4 show ?thesis by blast
qed

section \<open>Properties of the catalog invariant\<close>

lemma code_clean_service:
  "clean_service h f s = Some svc \<Longrightarrow> ToString h (get s ''code'') = Some (code svc)"
  by (auto simp: clean_service_def split: option.splits)

lemma codes_cleaned:
  "those (map (\<lambda>(n, s). clean_service h (fr n) s) (enumerate k vs)) = Some cl \<Longrightarrow>
     those (map (\<lambda>s. ToString h (get s ''code'')) vs) = Some (map code cl)"
proof (induction vs arbitrary: k cl)
  case Nil
  then show ?case by simp
next
  case (Cons v vs)
  then obtain x xs where x: "clean_service h (fr k) v = Some x"
    and xs: "those (map (\<lambda>(n, s). clean_service h (fr n) s) (enumerate (Suc k) vs)) = Some xs"
    and cl: "cl = x # xs"
    by (auto split: option.splits)
  from Cons.IH [OF xs] code_clean_service [OF x] cl show ?case
    by simp
qed

lemma load_services_cases:
  "load_services h fr stored prev = prev
   \<or> (load_services h fr stored prev \<noteq> []
       \<and> map code (load_services h fr stored prev) = stored_codes h stored)"
  by (auto simp: load_services_def stored_codes_def Let_def dest: codes_cleaned
      split: option.splits jsval.splits)

lemma inv_add:
  assumes "catalog_inv svcs"
  shows "catalog_inv (services (snd (addServiceFromAdmin fresh \<lparr>services = svcs, newService = ns\<rparr>)))"
  using assms
  by (auto simp: addServiceFromAdmin_def Let_def catalog_inv_def list_ex_iff)

lemma inv_update:
  assumes "catalog_inv svcs" and "patch_code p = None"
  shows "catalog_inv (updateService i p svcs)"
proof -
  have "map code (updateService i p svcs) = map code svcs"
    using assms(2) by (simp add: updateService_def apply_patch_def)
  moreover have "updateService i p svcs \<noteq> []"
    using assms(1) by (simp add: updateService_def catalog_inv_def)
  ultimately show ?thesis
    using assms(1) by (simp add: catalog_inv_def)
qed

lemma inv_delete:
  assumes "catalog_inv svcs" and "distinct (map svc_id svcs)"
  shows "catalog_inv (snd (deleteService confirm i svcs))"
proof (cases "find (\<lambda>s. strict_eq (svc_id s) i) svcs")
  case None
  then show ?thesis using assms(1) by (simp add: deleteService_def)
next
  case (Some svc)
  note e = strict_eq_found [OF Some]
  have f: "find (\<lambda>s. svc_id s = i) svcs = Some svc"
    using Some by (simp add: e)
  then have mem: "svc \<in> set svcs"
    by (auto simp: find_Some_iff)
  have r: "filter (\<lambda>s. svc_id s \<noteq> i) svcs = remove1 svc svcs"
    using assms(2) f by (rule filter_is_remove1)
  show ?thesis
  proof (cases "length svcs \<le> 1 \<or> \<not> confirm svc")
    case True
    then show ?thesis using Some assms(1) by (auto simp: deleteService_def)
  next
    case False
    then have res: "snd (deleteService confirm i svcs) = filter (\<lambda>s. svc_id s \<noteq> i) svcs"
      using Some by (simp add: deleteService_def e)
    have "length (remove1 svc svcs) = length svcs - 1"
      using mem by (simp add: length_remove1)
    with False have "remove1 svc svcs \<noteq> []" by auto
    moreover have "distinct (map code (filter (\<lambda>s. svc_id s \<noteq> i) svcs))"
      using assms(1) by (simp add: catalog_inv_def distinct_map_filter)
    ultimately show ?thesis
      by (simp add: res catalog_inv_def r [symmetric])
  qed
qed

lemma inv_load:
  assumes "catalog_inv svcs"
  shows "load_services h fr stored svcs \<noteq> []"
    and "distinct (stored_codes h stored) \<Longrightarrow> catalog_inv (load_services h fr stored svcs)"
  using assms load_services_cases [of h fr stored svcs]
  by (auto simp: catalog_inv_def)

text \<open>
  C7 (as amended). Starting from a catalog with pairwise different codes and at least
  one entry: \<^verbatim>\<open>addServiceFromAdmin\<close> keeps both properties; \<^verbatim>\<open>updateService\<close> keeps
  them for a patch without a code (the form sends a label, a suggestion or a default
  hourly cost); \<^verbatim>\<open>deleteService\<close> keeps them when identifiers are pairwise different;
  loading from storage always leaves at least one entry, and keeps the codes pairwise
  different when the codes of the stored entries it keeps are.
\<close>

theorem catalog_invariant:
  assumes "catalog_inv svcs"
  shows "catalog_inv (services (snd (addServiceFromAdmin fresh \<lparr>services = svcs, newService = ns\<rparr>)))
       \<and> (patch_code p = None \<longrightarrow> catalog_inv (updateService i p svcs))
       \<and> (distinct (map svc_id svcs) \<longrightarrow> catalog_inv (snd (deleteService confirm i svcs)))
       \<and> load_services h fr stored svcs \<noteq> []
       \<and> (distinct (stored_codes h stored) \<longrightarrow> catalog_inv (load_services h fr stored svcs))"
  using inv_add [OF assms] inv_update [OF assms] inv_delete [OF assms] inv_load [OF assms]
  by blast

lemma example_loads:
  "load_services example_host example_fresh (Some json_two_codes) DEFAULT_SERVICES =
     [\<lparr>svc_id = JStr ''id-0'', code = ''a'', label = ''A'', suggestion = [],
       defaultHourlyCost = Fin 0\<rparr>,
      \<lparr>svc_id = JStr ''id-1'', code = ''b'', label = ''B'', suggestion = [],
       defaultHourlyCost = Fin 0\<rparr>]"
  "load_services example_host example_fresh (Some json_same_code) DEFAULT_SERVICES =
     [\<lparr>svc_id = JStr ''id-0'', code = ''a'', label = ''A'', suggestion = [],
       defaultHourlyCost = Fin 0\<rparr>,
      \<lparr>svc_id = JStr ''id-1'', code = ''a'', label = ''B'', suggestion = [],
       defaultHourlyCost = Fin 0\<rparr>]"
  "load_services example_host example_fresh (Some json_same_id) DEFAULT_SERVICES =
     [\<lparr>svc_id = JStr ''x'', code = ''a'', label = ''A'', suggestion = [],
       defaultHourlyCost = Fin 0\<rparr>,
      \<lparr>svc_id = JStr ''x'', code = ''b'', label = ''B'', suggestion = [],
       defaultHourlyCost = Fin 0\<rparr>]"
  by (simp_all add: load_services_def parse_item_def str_or_def example_host_def
      example_JSON_parse_def json_two_codes_def json_same_code_def json_same_id_def
      clean_service_def or_else_def example_fresh_def nat_to_string_digit digit_char_def
      Let_def)

lemma example_stored_codes:
  "stored_codes example_host (Some json_two_codes) = [''a'', ''b'']"
  by (simp add: stored_codes_def parse_item_def str_or_def example_host_def
      example_JSON_parse_def json_two_codes_def)

lemma default_inv: "catalog_inv DEFAULT_SERVICES"
  by (simp add: catalog_inv_def DEFAULT_SERVICES_def)

theorem catalog_invariant_witness:
  "catalog_inv DEFAULT_SERVICES
   \<and> patch_code (label_patch ''Web'') = None
   \<and> distinct (map svc_id DEFAULT_SERVICES)
   \<and> distinct (stored_codes example_host (Some json_two_codes))
   \<and> catalog_inv (services (snd (addServiceFromAdmin ''id1'' (form_with '' Audit ''))))
   \<and> catalog_inv (updateService (JStr ''srv_creacion_web'') (label_patch ''Web'') DEFAULT_SERVICES)
   \<and> catalog_inv (snd (deleteService accept_all (JStr ''srv_creacion_web'') DEFAULT_SERVICES))
   \<and> catalog_inv (load_services example_host example_fresh (Some json_two_codes) DEFAULT_SERVICES)
   \<and> map code (load_services example_host example_fresh (Some json_two_codes) DEFAULT_SERVICES)
       = [''a'', ''b'']"
proof -
  have p: "patch_code (label_patch ''Web'') = None"
    by (simp add: label_patch_def)
  have d: "distinct (stored_codes example_host (Some json_two_codes))"
    by (simp add: example_stored_codes)
  have f: "form_with '' Audit '' =
      \<lparr>services = DEFAULT_SERVICES, newService = newService (form_with '' Audit '')\<rparr>"
    by (simp add: form_with_def)
  have m: "map code (load_services example_host example_fresh (Some json_two_codes) DEFAULT_SERVICES)
       = [''a'', ''b'']"
    by (simp add: example_loads)
  note w = catalog_invariant [OF default_inv, of "''id1''"
      "newService (form_with '' Audit '')" "label_patch ''Web''" "JStr ''srv_creacion_web''"
      accept_all example_host example_fresh "Some json_two_codes"]
  from w p d default_ids(3) default_inv m show ?thesis
    unfolding f [symmetric] by blast
qed

text \<open>
  C7 as stated fails. Loading a stored catalog in which two entries have the same code
  yields a catalog with that code twice. Loading one in which two entries have the same
  identifier yields a catalog that \<^verbatim>\<open>deleteService\<close> then empties.
\<close>

theorem load_same_code_counterexample:
  "catalog_inv DEFAULT_SERVICES
   \<and> map code (load_services example_host example_fresh (Some json_same_code) DEFAULT_SERVICES)
       = [''a'', ''a'']
   \<and> \<not> catalog_inv (load_services example_host example_fresh (Some json_same_code) DEFAULT_SERVICES)
   \<and> catalog_inv (load_services example_host example_fresh (Some json_same_id) DEFAULT_SERVICES)
   \<and> snd (deleteService accept_all (JStr ''x'')
        (load_services example_host example_fresh (Some json_same_id) DEFAULT_SERVICES)) = []"
  by (simp add: default_inv example_loads)
     (simp add: catalog_inv_def deleteService_def strict_eq_def accept_all_def)

section \<open>Properties of the settings\<close>

lemma is_digit_digit_char: "d < 10 \<Longrightarrow> is_digit (digit_char d)"
proof -
  assume "d < 10"
  then have "d \<in> {0, 1, 2, 3, 4, 5, 6, 7, 8, 9}" by auto
  then show ?thesis
    by (auto simp: digit_char_def is_digit_def char_code_def)
qed

lemma nat_to_string_digits: "list_all is_digit (nat_to_string n)"
proof (induction n rule: nat_to_string.induct)
  case (1 n)
  show ?case
  proof (cases "n < 10")
    case True
    then show ?thesis by (simp add: nat_to_string_digit is_digit_digit_char)
  next
    case False
    then have "nat_to_string n = nat_to_string (n div 10) @ [digit_char (n mod 10)]"
      by (subst nat_to_string.simps) simp
    with False "1.IH" show ?thesis by (simp add: is_digit_digit_char)
  qed
qed

lemma index_keys:
  assumes "\<not> list_all is_digit k"
  shows "map_of (zip (map nat_to_string [0..<length vs]) vs) k = None"
proof -
  have "k \<notin> set (map nat_to_string [0..<length vs])"
    using assms nat_to_string_digits by auto
  then show ?thesis
    by simp
qed

lemma load_settings_object:
  "parse_item h stored = Some (JObj m) \<Longrightarrow> load_settings h stored prev = prev ++ m"
  by (simp add: load_settings_def)

lemma load_settings_array:
  "parse_item h stored = Some (JArr vs) \<Longrightarrow> \<not> list_all is_digit k \<Longrightarrow>
     load_settings h stored prev k = prev k"
  by (simp add: load_settings_def map_add_def index_keys)

lemma load_settings_other:
  "parse_item h stored = None \<Longrightarrow> load_settings h stored prev = prev"
  "parse_item h stored = Some v \<Longrightarrow> typeof v \<noteq> ''object'' \<or> v = JNull \<Longrightarrow>
     load_settings h stored prev = prev"
  by (auto simp: load_settings_def)

lemma load_settings_missing:
  "JSON_parse h ''null'' = Some JNull \<Longrightarrow> load_settings h None prev = prev"
  "JSON_parse h ''null'' = Some JNull \<Longrightarrow> load_settings h (Some []) prev = prev"
  by (simp_all add: load_settings_def parse_item_def str_or_def)

text \<open>
  C8. For a host whose \<^verbatim>\<open>JSON.parse\<close> reads the text null as null: a stored object
  is merged over the previous settings (the built-in ones when the program starts), its
  properties winning; a missing key, an empty item, a text that does not parse and a
  parsed value that is no object (null, a boolean, a number, a string) leave the
  settings as they were; a stored array leaves every property as it was whose name is
  not a string of digits, so all the built-in ones.
\<close>

theorem settings_load:
  assumes "JSON_parse h ''null'' = Some JNull"
  shows "(parse_item h stored = Some (JObj m) \<longrightarrow> load_settings h stored prev = prev ++ m)
       \<and> load_settings h None prev = prev
       \<and> load_settings h (Some []) prev = prev
       \<and> (parse_item h stored = None \<longrightarrow> load_settings h stored prev = prev)
       \<and> (parse_item h stored = Some v \<and> (typeof v \<noteq> ''object'' \<or> v = JNull) \<longrightarrow>
            load_settings h stored prev = prev)
       \<and> (parse_item h stored = Some (JArr vs) \<and> \<not> list_all is_digit k \<longrightarrow>
            load_settings h stored prev k = prev k)"
  by (intro conjI impI)
     (simp_all add: load_settings_object load_settings_array load_settings_other
        load_settings_missing [OF assms])

lemma example_parses:
  "JSON_parse example_host ''null'' = Some JNull"
  "parse_item example_host (Some json_tax_only) =
     Some (JObj (map_of [(''igvRate'', JNum (Fin 0.2))]))"
  "parse_item example_host (Some ''{oops'') = None"
  "parse_item example_host (Some ''7'') = Some (JNum (Fin 7))"
  "parse_item example_host (Some ''[1,2]'') = Some (JArr [JNum (Fin 1), JNum (Fin 2)])"
  by (simp_all add: parse_item_def str_or_def example_host_def example_JSON_parse_def
      json_tax_only_def)

text \<open>
  The example of the specification: a stored object with a tax rate of 0.2 and nothing
  else.
\<close>

theorem settings_load_witness:
  "JSON_parse example_host ''null'' = Some JNull
   \<and> load_settings example_host (Some json_tax_only) DEFAULT_SETTINGS
       = DEFAULT_SETTINGS(''igvRate'' \<mapsto> JNum (Fin 0.2))
   \<and> map (setting (load_settings example_host (Some json_tax_only) DEFAULT_SETTINGS))
        [''igvRate'', ''exchangeRate'', ''companyName'', ''companyRuc'', ''companyEmail'',
         ''companyPhone'']
       = [JNum (Fin 0.2), JNum (Fin 3.5), JStr APP_OWNER_NAME, JStr [], JStr [], JStr []]
   \<and> load_settings example_host None DEFAULT_SETTINGS = DEFAULT_SETTINGS
   \<and> load_settings example_host (Some ''{oops'') DEFAULT_SETTINGS = DEFAULT_SETTINGS
   \<and> load_settings example_host (Some ''7'') DEFAULT_SETTINGS = DEFAULT_SETTINGS
   \<and> load_settings example_host (Some ''[1,2]'') DEFAULT_SETTINGS ''igvRate''
       = Some (JNum (Fin 0.18))"
proof -
  note h = example_parses(1)
  have 1: "load_settings example_host (Some json_tax_only) DEFAULT_SETTINGS
       = DEFAULT_SETTINGS(''igvRate'' \<mapsto> JNum (Fin 0.2))"
    using settings_load [OF h, of "Some json_tax_only"
        "map_of [(''igvRate'', JNum (Fin 0.2))]" DEFAULT_SETTINGS]
    by (simp add: example_parses)
  have 2: "map (setting (DEFAULT_SETTINGS(''igvRate'' \<mapsto> JNum (Fin 0.2))))
        [''igvRate'', ''exchangeRate'', ''companyName'', ''companyRuc'', ''companyEmail'',
         ''companyPhone'']
       = [JNum (Fin 0.2), JNum (Fin 3.5), JStr APP_OWNER_NAME, JStr [], JStr [], JStr []]"
    by (simp add: setting_def DEFAULT_SETTINGS_def)
  have 3: "load_settings example_host None DEFAULT_SETTINGS = DEFAULT_SETTINGS"
    using settings_load [OF h, of None] by simp
  have 4: "load_settings example_host (Some ''{oops'') DEFAULT_SETTINGS = DEFAULT_SETTINGS"
    using settings_load [OF h, of "Some ''{oops''" _ DEFAULT_SETTINGS]
    by (simp add: example_parses)
  have 5: "load_settings example_host (Some ''7'') DEFAULT_SETTINGS = DEFAULT_SETTINGS"
    using settings_load [OF h, of "Some ''7''" _ DEFAULT_SETTINGS "JNum (Fin 7)"]
    by (simp add: example_parses)
  have "\<not> list_all is_digit ''igvRate''"
    by (simp add: is_digit_def char_code_def)
  then have 6: "load_settings example_host (Some ''[1,2]'') DEFAULT_SETTINGS ''igvRate''
       = Some (JNum (Fin 0.18))"
    using settings_load [OF h, of "Some ''[1,2]''" _ DEFAULT_SETTINGS _
        "[JNum (Fin 1), JNum (Fin 2)]" "''igvRate''"]
    by (simp add: example_parses) (simp add: DEFAULT_SETTINGS_def)
  from h 1 2 3 4 5 6 show ?thesis by simp
qed

section \<open>Properties of the line items\<close>

text \<open>
  C4 (as amended). When the catalog is not empty, the pass that follows a change of
  the catalog moves every row whose service code is the code of no entry to the code
  of the first entry, changing nothing else in it, and leaves every other row as it
  is. When the catalog is empty the pass leaves every row as it is.
\<close>

theorem rows_follow_catalog:
  "(svcs \<noteq> [] \<longrightarrow>
      length (reconcile_rows svcs rows) = length rows
      \<and> (\<forall>j < length rows.
           (serviceType (rows ! j) \<notin> code ` set svcs \<longrightarrow>
              reconcile_rows svcs rows ! j = (rows ! j)\<lparr>serviceType := code (hd svcs)\<rparr>)
           \<and> (serviceType (rows ! j) \<in> code ` set svcs \<longrightarrow>
              reconcile_rows svcs rows ! j = rows ! j)))
   \<and> reconcile_rows [] rows = rows"
  by (cases svcs) (simp_all add: reconcile_rows_def Let_def)

lemma delete_first_default:
  "deleteService accept_all (JStr ''srv_creacion_web'') DEFAULT_SERVICES =
     (None, tl DEFAULT_SERVICES)"
  by (simp add: deleteService_def DEFAULT_SERVICES_def strict_eq_def accept_all_def)

lemma reconcile_after_delete:
  "map serviceType (reconcile_rows (tl DEFAULT_SERVICES) example_rows)
     = [''mantenimiento_web'', ''mantenimiento_web'', ''diseno_figma'']"
  by (simp add: DEFAULT_SERVICES_def example_rows_def reconcile_rows_def Let_def)

theorem rows_follow_catalog_witness:
  "snd (deleteService accept_all (JStr ''srv_creacion_web'') DEFAULT_SERVICES) \<noteq> []
   \<and> map serviceType (example_rows) = [''creacion_web'', ''mantenimiento_web'', ''diseno_figma'']
   \<and> map serviceType
        (reconcile_rows (snd (deleteService accept_all (JStr ''srv_creacion_web'') DEFAULT_SERVICES))
           example_rows)
      = [''mantenimiento_web'', ''mantenimiento_web'', ''diseno_figma'']"
proof -
  have ne: "snd (deleteService accept_all (JStr ''srv_creacion_web'') DEFAULT_SERVICES) \<noteq> []"
    by (simp add: delete_first_default) (simp add: DEFAULT_SERVICES_def)
  have before: "map serviceType (example_rows)
      = [''creacion_web'', ''mantenimiento_web'', ''diseno_figma'']"
    by (simp add: example_rows_def)
  have after: "map serviceType
        (reconcile_rows (snd (deleteService accept_all (JStr ''srv_creacion_web'') DEFAULT_SERVICES))
           example_rows)
      = [''mantenimiento_web'', ''mantenimiento_web'', ''diseno_figma'']"
    by (simp add: delete_first_default reconcile_after_delete)
  from rows_follow_catalog
    [of "snd (deleteService accept_all (JStr ''srv_creacion_web'') DEFAULT_SERVICES)" example_rows]
    ne before after
  show ?thesis
    by blast
qed

text \<open>
  C4 as stated fails. After a catalog of two entries with the same identifier is
  loaded and that identifier is deleted, the catalog is empty: the rows keep a code
  that no entry has.
\<close>

theorem empty_catalog_counterexample:
  "map serviceType
     (reconcile_rows
        (load_services example_host example_fresh (Some json_same_id) DEFAULT_SERVICES)
        example_rows) = [''a'', ''a'', ''a'']
   \<and> snd (deleteService accept_all (JStr ''x'')
        (load_services example_host example_fresh (Some json_same_id) DEFAULT_SERVICES)) = []
   \<and> map serviceType
        (reconcile_rows
           (snd (deleteService accept_all (JStr ''x'')
              (load_services example_host example_fresh (Some json_same_id) DEFAULT_SERVICES)))
           (reconcile_rows
              (load_services example_host example_fresh (Some json_same_id) DEFAULT_SERVICES)
              example_rows)) = [''a'', ''a'', ''a'']"
proof -
  have 1: "map serviceType
     (reconcile_rows
        (load_services example_host example_fresh (Some json_same_id) DEFAULT_SERVICES)
        example_rows) = [''a'', ''a'', ''a'']"
    by (simp add: example_loads reconcile_rows_def example_rows_def Let_def)
  have 2: "snd (deleteService accept_all (JStr ''x'')
        (load_services example_host example_fresh (Some json_same_id) DEFAULT_SERVICES)) = []"
    by (simp add: example_loads deleteService_def strict_eq_def accept_all_def)
  show ?thesis
    unfolding 2 using 1 by (simp add: reconcile_rows_def)
qed

lemma find_unique_code:
  "distinct (map code svcs) \<Longrightarrow> svc \<in> set svcs \<Longrightarrow> getServiceByCode svcs (code svc) = Some svc"
  unfolding getServiceByCode_def
  by (induction svcs) (auto simp: image_iff)

text \<open>
  C9 (as amended). In src/unnamed/part_000, let \<open>svc\<close> be the catalog entry that its
  code selects: the first entry with that code, which is every entry of a catalog
  whose codes are pairwise different. Changing a row's service to it gives the rows
  with that identifier the code of \<open>svc\<close>, its default hourly cost and, when their
  detail is blank, its suggestion, and leaves every other row as it is. In
  src/src/App.js, where catalog entries carry no default cost, the change gives the
  rows with that identifier the new service and leaves their hours and their hourly
  cost, and every other row, as they are.
\<close>

theorem service_change_sets_cost:
  "(getServiceByCode svcs (code svc) = Some svc \<longrightarrow>
      length (handleServiceChange svcs rowId (code svc) rows) = length rows
      \<and> (\<forall>j < length rows.
           (row_id (rows ! j) = rowId \<longrightarrow>
              handleServiceChange svcs rowId (code svc) rows ! j =
                (rows ! j)\<lparr>serviceType := code svc,
                           detail := (if trim (detail (rows ! j)) \<noteq> [] then detail (rows ! j)
                                      else suggestion svc),
                           hourlyCost := JNum (defaultHourlyCost svc)\<rparr>)
           \<and> (row_id (rows ! j) \<noteq> rowId \<longrightarrow>
              handleServiceChange svcs rowId (code svc) rows ! j = rows ! j)))
   \<and> length (App_handleServiceChange rowId st rows) = length rows
   \<and> (\<forall>j < length rows.
        (row_id (rows ! j) = rowId \<longrightarrow>
           serviceType (App_handleServiceChange rowId st rows ! j) = st
           \<and> row_id (App_handleServiceChange rowId st rows ! j) = rowId
           \<and> hours (App_handleServiceChange rowId st rows ! j) = hours (rows ! j)
           \<and> hourlyCost (App_handleServiceChange rowId st rows ! j) = hourlyCost (rows ! j))
        \<and> (row_id (rows ! j) \<noteq> rowId \<longrightarrow> App_handleServiceChange rowId st rows ! j = rows ! j))"
  by (simp add: handleServiceChange_def App_handleServiceChange_def Let_def str_or_def)

lemma catalog_75_last:
  "getServiceByCode catalog_75 (code (last catalog_75)) = Some (last catalog_75)"
  by (simp add: catalog_75_def DEFAULT_SERVICES_def getServiceByCode_def)

lemma catalog_75_change:
  "map hourlyCost (handleServiceChange catalog_75 ''r2'' ''audit'' example_rows)
      = [JNum (Fin 60), JNum (Fin 75), JNum (Fin 55)]"
  "map serviceType (handleServiceChange catalog_75 ''r2'' ''audit'' example_rows)
      = [''creacion_web'', ''audit'', ''diseno_figma'']"
  "map hourlyCost (App_handleServiceChange ''r2'' ''diseno_figma'' example_rows)
      = [JNum (Fin 60), JNum (Fin 50), JNum (Fin 55)]"
  "map serviceType (App_handleServiceChange ''r2'' ''diseno_figma'' example_rows)
      = [''creacion_web'', ''diseno_figma'', ''diseno_figma'']"
  by (simp_all add: handleServiceChange_def App_handleServiceChange_def getServiceByCode_def
      example_rows_def catalog_75_def DEFAULT_SERVICES_def Let_def)

theorem service_change_sets_cost_witness:
  "getServiceByCode catalog_75 (code (last catalog_75)) = Some (last catalog_75)
   \<and> code (last catalog_75) = ''audit''
   \<and> defaultHourlyCost (last catalog_75) = Fin 75
   \<and> map hourlyCost example_rows = [JNum (Fin 60), JNum (Fin 50), JNum (Fin 55)]
   \<and> hourlyCost (handleServiceChange catalog_75 ''r2'' ''audit'' example_rows ! 1) = JNum (Fin 75)
   \<and> handleServiceChange catalog_75 ''r2'' ''audit'' example_rows ! 0 = example_rows ! 0
   \<and> handleServiceChange catalog_75 ''r2'' ''audit'' example_rows ! 2 = example_rows ! 2
   \<and> map hourlyCost (App_handleServiceChange ''r2'' ''diseno_figma'' example_rows)
      = [JNum (Fin 60), JNum (Fin 50), JNum (Fin 55)]
   \<and> map serviceType (App_handleServiceChange ''r2'' ''diseno_figma'' example_rows)
      = [''creacion_web'', ''diseno_figma'', ''diseno_figma'']"
proof -
  have c: "code (last catalog_75) = ''audit''" "defaultHourlyCost (last catalog_75) = Fin 75"
    by (simp_all add: catalog_75_def)
  have b: "map hourlyCost example_rows = [JNum (Fin 60), JNum (Fin 50), JNum (Fin 55)]"
    by (simp add: example_rows_def)
  have i: "row_id (example_rows ! 0) \<noteq> ''r2''" "row_id (example_rows ! 1) = ''r2''"
    "row_id (example_rows ! 2) \<noteq> ''r2''" "length example_rows = 3"
    by (simp_all add: example_rows_def)
  note w = service_change_sets_cost
    [of catalog_75 "last catalog_75" "''r2''" example_rows "''diseno_figma''"]
  have 1: "hourlyCost (handleServiceChange catalog_75 ''r2'' ''audit'' example_rows ! 1)
      = JNum (Fin 75)"
    using w catalog_75_last i c by simp
  have 0: "handleServiceChange catalog_75 ''r2'' ''audit'' example_rows ! 0 = example_rows ! 0"
    using w catalog_75_last i c by simp
  have 2: "handleServiceChange catalog_75 ''r2'' ''audit'' example_rows ! 2 = example_rows ! 2"
    using w catalog_75_last i c by simp
  from 0 1 2 c b catalog_75_last catalog_75_change(3,4) show ?thesis
    by blast
qed

text \<open>
  C9 as stated fails. In the catalog loaded from two stored entries with the same code
  and the costs 10 and 75, the second entry is in the catalog and has the cost 75;
  changing a row to its code gives the row the cost 10 of the first entry.
\<close>

theorem same_code_cost_counterexample:
  "map code (load_services example_host example_fresh (Some json_same_code_costs) DEFAULT_SERVICES)
     = [''a'', ''a'']
   \<and> map defaultHourlyCost
        (load_services example_host example_fresh (Some json_same_code_costs) DEFAULT_SERVICES)
     = [Fin 10, Fin 75]
   \<and> map hourlyCost
        (handleServiceChange
           (load_services example_host example_fresh (Some json_same_code_costs) DEFAULT_SERVICES)
           ''r2''
           (code (last
              (load_services example_host example_fresh (Some json_same_code_costs)
                 DEFAULT_SERVICES)))
           example_rows)
     = [JNum (Fin 60), JNum (Fin 10), JNum (Fin 55)]"
proof -
  have l: "load_services example_host example_fresh (Some json_same_code_costs) DEFAULT_SERVICES =
     [\<lparr>svc_id = JStr ''id-0'', code = ''a'', label = ''A'', suggestion = [],
       defaultHourlyCost = Fin 10\<rparr>,
      \<lparr>svc_id = JStr ''id-1'', code = ''a'', label = ''B'', suggestion = [],
       defaultHourlyCost = Fin 75\<rparr>]"
    by (simp add: load_services_def parse_item_def str_or_def example_host_def
        example_JSON_parse_def json_same_code_costs_def clean_service_def or_else_def
        example_fresh_def nat_to_string_digit digit_char_def Let_def)
  show ?thesis
    unfolding l
    by (simp add: handleServiceChange_def getServiceByCode_def example_rows_def Let_def)
qed

end
